theory Spec2Isabelle
  imports Complex_Main "HOL-Library.Product_Lexorder" "HOL-Library.Multiset"
begin

section \<open>Nonconformity functions of nonconformist/nc.py\<close>

text \<open>
  The embedding follows \<^verbatim>\<open>src/nonconformist/nc.py\<close>.  NumPy floating-point numbers are
  modelled by \<open>npfloat\<close>: the finite values are real numbers and arithmetic on them is
  exact (rounding, overflow and the cast to \<^verbatim>\<open>float32\<close> are not modelled), while the
  special values \<open>-inf\<close>, \<open>+inf\<close> and \<open>nan\<close> behave as IEEE 754 prescribes.  The
  special values are needed because \<^verbatim>\<open>margin\<close> itself stores \<open>-inf\<close> into its
  argument.
\<close>

subsection \<open>Floating-point values\<close>

datatype npfloat = NInf | Fin real | PInf | NaN

fun fneg :: "npfloat \<Rightarrow> npfloat" where
  "fneg NInf = PInf"
| "fneg (Fin a) = Fin (- a)"
| "fneg PInf = NInf"
| "fneg NaN = NaN"

fun fadd :: "npfloat \<Rightarrow> npfloat \<Rightarrow> npfloat" where
  "fadd NaN b = NaN"
| "fadd a NaN = NaN"
| "fadd (Fin a) (Fin b) = Fin (a + b)"
| "fadd (Fin a) PInf = PInf"
| "fadd (Fin a) NInf = NInf"
| "fadd PInf (Fin b) = PInf"
| "fadd PInf PInf = PInf"
| "fadd PInf NInf = NaN"
| "fadd NInf (Fin b) = NInf"
| "fadd NInf NInf = NInf"
| "fadd NInf PInf = NaN"

definition fsub :: "npfloat \<Rightarrow> npfloat \<Rightarrow> npfloat" where
  "fsub a b = fadd a (fneg b)"

fun fabs :: "npfloat \<Rightarrow> npfloat" where
  "fabs NInf = PInf"
| "fabs (Fin a) = Fin \<bar>a\<bar>"
| "fabs PInf = PInf"
| "fabs NaN = NaN"

text \<open>Division by the literal 2, the only division of the source.\<close>

fun fhalve :: "npfloat \<Rightarrow> npfloat" where
  "fhalve (Fin a) = Fin (a / 2)"
| "fhalve a = a"

text \<open>\<^verbatim>\<open>np.maximum\<close>, which \<^verbatim>\<open>ndarray.max\<close> folds over an axis: a \<open>nan\<close> wins.\<close>

fun fmax :: "npfloat \<Rightarrow> npfloat \<Rightarrow> npfloat" where
  "fmax NaN b = NaN"
| "fmax a NaN = NaN"
| "fmax PInf b = PInf"
| "fmax a PInf = PInf"
| "fmax NInf b = b"
| "fmax a NInf = a"
| "fmax (Fin a) (Fin b) = Fin (max a b)"

text \<open>The comparisons \<^verbatim>\<open>==\<close> and \<^verbatim>\<open><=\<close> of IEEE 754: every comparison with \<open>nan\<close> is false.\<close>

fun feq :: "npfloat \<Rightarrow> npfloat \<Rightarrow> bool" where
  "feq NaN b = False"
| "feq a NaN = False"
| "feq a b = (a = b)"

fun fle :: "npfloat \<Rightarrow> npfloat \<Rightarrow> bool" where
  "fle NaN b = False"
| "fle a NaN = False"
| "fle NInf b = True"
| "fle a PInf = True"
| "fle (Fin a) (Fin b) = (a \<le> b)"
| "fle a b = False"

text \<open>
  The order in which \<^verbatim>\<open>np.sort\<close> arranges floating-point values: by value, every
  \<open>nan\<close> last.
\<close>

fun sort_rank :: "npfloat \<Rightarrow> nat \<times> real" where
  "sort_rank NInf = (0, 0)"
| "sort_rank (Fin a) = (1, a)"
| "sort_rank PInf = (2, 0)"
| "sort_rank NaN = (3, 0)"

definition np_sort :: "npfloat list \<Rightarrow> npfloat list" where
  "np_sort xs = sort_key sort_rank xs"

subsection \<open>Exceptions\<close>

datatype error =
    IndexError
  | ValueError
  | AttributeError
  | EstimatorError
  | Unsupported
  | BadReference

text \<open>
  \<open>EstimatorError\<close> stands for whatever the wrapped model raises.  \<open>Unsupported\<close> marks
  an array kind that the model does not cover (the regression functions on arrays of
  rank two), and \<open>BadReference\<close> a reference to no object; neither is an exception of the
  program, and no theorem below relies on them.
\<close>

definition bind :: "error + 'a \<Rightarrow> ('a \<Rightarrow> error + 'b) \<Rightarrow> error + 'b" where
  "bind m f = (case m of Inl e \<Rightarrow> Inl e | Inr v \<Rightarrow> f v)"

subsection \<open>Indexing and broadcasting\<close>

text \<open>
  NumPy indexing into an axis of length \<open>n\<close>: a negative index counts from the end,
  anything outside \<open>[-n, n)\<close> raises \<^verbatim>\<open>IndexError\<close>.
\<close>

definition np_index :: "nat \<Rightarrow> int \<Rightarrow> error + nat" where
  "np_index n j =
     (if 0 \<le> j \<and> j < int n then Inr (nat j)
      else if - int n \<le> j \<and> j < 0 then Inr (nat (j + int n))
      else Inl IndexError)"

definition getitem :: "'a list \<Rightarrow> int \<Rightarrow> error + 'a" where
  "getitem xs j = bind (np_index (length xs) j) (\<lambda>k. Inr (xs ! k))"

text \<open>
  An elementwise binary operation on two arrays of rank one: equal lengths pair up, a
  length of one is stretched, any other combination raises \<^verbatim>\<open>ValueError\<close>.
\<close>

definition broadcast2 :: "('a \<Rightarrow> 'b \<Rightarrow> 'c) \<Rightarrow> 'a list \<Rightarrow> 'b list \<Rightarrow> error + 'c list" where
  "broadcast2 f xs ys =
     (if length xs = length ys then Inr (map2 f xs ys)
      else if length xs = 1 then Inr (map (f (hd xs)) ys)
      else if length ys = 1 then Inr (map (\<lambda>x. f x (hd ys)) xs)
      else Inl ValueError)"

subsection \<open>Regression error functions\<close>

text \<open>\<^verbatim>\<open>absolute_error\<close>: \<^verbatim>\<open>np.abs(prediction - y)\<close>.\<close>

definition absolute_error :: "npfloat list \<Rightarrow> npfloat list \<Rightarrow> error + npfloat list" where
  "absolute_error prediction y =
     bind (broadcast2 fsub prediction y) (\<lambda>d. Inr (map fabs d))"

text \<open>\<^verbatim>\<open>signed_error\<close>: \<^verbatim>\<open>prediction - y\<close>.\<close>

definition signed_error :: "npfloat list \<Rightarrow> npfloat list \<Rightarrow> error + npfloat list" where
  "signed_error prediction y = broadcast2 fsub prediction y"

text \<open>
  \<^verbatim>\<open>absolute_error_inverse\<close>.  The local name \<^verbatim>\<open>nc\<close> is rebound to the reversed result
  of \<^verbatim>\<open>np.sort\<close>, the significance is a Python float (here a real number), and the
  two rows stacked by \<^verbatim>\<open>np.vstack\<close> are transposed into one \<open>[lower, upper]\<close> row for
  each sample.
\<close>

definition absolute_error_inverse ::
  "npfloat list \<Rightarrow> npfloat list \<Rightarrow> real \<Rightarrow> error + npfloat list list" where
  "absolute_error_inverse prediction nc significance =
     (let nc = rev (np_sort nc);
          border = \<lfloor>significance * real (length nc + 1)\<rfloor> - 1;
          border = max border 0
      in bind (getitem nc border) (\<lambda>lo.
         bind (getitem nc border) (\<lambda>hi.
           Inr (map2 (\<lambda>a b. [a, b])
                  (map (\<lambda>p. fsub p lo) prediction)
                  (map (\<lambda>p. fadd p hi) prediction)))))"

text \<open>\<^verbatim>\<open>signed_error_inverse\<close>.\<close>

definition signed_error_inverse ::
  "npfloat list \<Rightarrow> npfloat list \<Rightarrow> real \<Rightarrow> error + npfloat list list" where
  "signed_error_inverse prediction nc significance =
     (let nc = rev (np_sort nc);
          upper = \<lfloor>(significance / 2) * real (length nc + 1)\<rfloor>;
          lower = \<lfloor>(1 - significance / 2) * real (length nc + 1)\<rfloor>;
          upper = max upper 0;
          lower = min lower (int (length nc) - 1)
      in bind (getitem nc lower) (\<lambda>lo.
         bind (getitem nc upper) (\<lambda>hi.
           Inr (map2 (\<lambda>a b. [a, b])
                  (map (\<lambda>p. fadd p lo) prediction)
                  (map (\<lambda>p. fadd p hi) prediction)))))"

subsection \<open>Arrays of rank two\<close>

text \<open>
  A prediction matrix has one row for each sample and \<open>ncols\<close> columns; the number of
  columns is kept apart from the rows so that an array without rows still has a shape.
\<close>

record matrix =
  ncols :: nat
  rows :: "npfloat list list"

definition wf_matrix :: "matrix \<Rightarrow> bool" where
  "wf_matrix m = list_all (\<lambda>r. length r = ncols m) (rows m)"

text \<open>\<^verbatim>\<open>prediction[i, j]\<close>, read and written.\<close>

definition getitem2 :: "matrix \<Rightarrow> int \<Rightarrow> int \<Rightarrow> error + npfloat" where
  "getitem2 m i j =
     bind (np_index (length (rows m)) i) (\<lambda>r.
     bind (np_index (ncols m) j) (\<lambda>c. Inr (rows m ! r ! c)))"

definition setitem2 :: "matrix \<Rightarrow> int \<Rightarrow> int \<Rightarrow> npfloat \<Rightarrow> error + matrix" where
  "setitem2 m i j v =
     bind (np_index (length (rows m)) i) (\<lambda>r.
     bind (np_index (ncols m) j) (\<lambda>c.
       Inr (m\<lparr>rows := (rows m)[r := (rows m ! r)[c := v]]\<rparr>)))"

text \<open>
  \<^verbatim>\<open>prediction.max(axis=1)\<close>: the maximum of every row; a reduction over an axis of
  length 0 raises \<^verbatim>\<open>ValueError\<close>.
\<close>

definition max_axis1 :: "matrix \<Rightarrow> error + npfloat list" where
  "max_axis1 m =
     (if ncols m = 0 then Inl ValueError
      else Inr (map (\<lambda>r. foldl fmax (hd r) (tl r)) (rows m)))"

text \<open>A \<^verbatim>\<open>for\<close> loop over a list whose body may raise.\<close>

fun foldM :: "('s \<Rightarrow> 'a \<Rightarrow> error + 's) \<Rightarrow> 's \<Rightarrow> 'a list \<Rightarrow> error + 's" where
  "foldM f s [] = Inr s"
| "foldM f s (x # xs) = bind (f s x) (\<lambda>s'. foldM f s' xs)"

subsection \<open>Classification error functions\<close>

text \<open>
  \<^verbatim>\<open>inverse_probability\<close>.  The loop runs over \<^verbatim>\<open>enumerate(y)\<close> and reads \<^verbatim>\<open>y[i]\<close>; the
  array \<^verbatim>\<open>prob\<close> starts as \<^verbatim>\<open>y.size\<close> zeros.
\<close>

definition inverse_probability_step ::
  "matrix \<Rightarrow> int list \<Rightarrow> npfloat list \<Rightarrow> nat \<times> int \<Rightarrow> error + npfloat list" where
  "inverse_probability_step prediction y prob iy =
     (let i = fst iy in
      bind (getitem2 prediction (int i) (y ! i)) (\<lambda>v. Inr (prob[i := v])))"

definition inverse_probability :: "matrix \<Rightarrow> int list \<Rightarrow> error + npfloat list" where
  "inverse_probability prediction y =
     bind (foldM (inverse_probability_step prediction y)
             (replicate (length y) (Fin 0)) (enumerate 0 y))
       (\<lambda>prob. Inr (map (\<lambda>p. fsub (Fin 1) p) prob))"

text \<open>
  \<^verbatim>\<open>margin\<close>.  The loop also writes \<^verbatim>\<open>-np.inf\<close> into \<^verbatim>\<open>prediction\<close>, the caller's
  array; the function therefore returns the scores together with the matrix as the
  call leaves it.  (When the function raises, the model does not say how far the
  matrix had been overwritten.)
\<close>

definition margin_step ::
  "int list \<Rightarrow> npfloat list \<times> matrix \<Rightarrow> nat \<times> int \<Rightarrow> error + npfloat list \<times> matrix" where
  "margin_step y st iy =
     (let i = fst iy; prob = fst st; prediction = snd st in
      bind (getitem2 prediction (int i) (y ! i)) (\<lambda>v.
      bind (setitem2 prediction (int i) (y ! i) NInf) (\<lambda>prediction'.
        Inr (prob[i := v], prediction'))))"

definition margin :: "matrix \<Rightarrow> int list \<Rightarrow> error + npfloat list \<times> matrix" where
  "margin prediction y =
     bind (foldM (margin_step y) (replicate (length y) (Fin 0), prediction) (enumerate 0 y))
       (\<lambda>st. let prob = fst st; prediction = snd st in
         bind (max_axis1 prediction) (\<lambda>mx.
         bind (broadcast2 fsub prob mx) (\<lambda>d.
           Inr (map (\<lambda>v. fsub (Fin (1 / 2)) v) (map fhalve d), prediction))))"

subsection \<open>The store\<close>

text \<open>
  Arrays are objects: two names can refer to one array, and \<^verbatim>\<open>margin\<close> writes into
  the array it is handed.  The store is the list of all arrays allocated so far, a
  reference is an index into it, and allocation appends.
\<close>

datatype ndarray = FArr "npfloat list" | IArr "int list" | FMat matrix

type_synonym addr = nat
type_synonym heap = "ndarray list"

definition alloc :: "heap \<Rightarrow> ndarray \<Rightarrow> heap \<times> addr" where
  "alloc h a = (h @ [a], length h)"

definition deref :: "heap \<Rightarrow> addr \<Rightarrow> error + ndarray" where
  "deref h a = (if a < length h then Inr (h ! a) else Inl BadReference)"

definition as_floats :: "ndarray \<Rightarrow> error + npfloat list" where
  "as_floats a = (case a of FArr v \<Rightarrow> Inr v | _ \<Rightarrow> Inl Unsupported)"

definition as_labels :: "ndarray \<Rightarrow> error + int list" where
  "as_labels a = (case a of IArr v \<Rightarrow> Inr v | _ \<Rightarrow> Inl Unsupported)"

definition as_matrix :: "ndarray \<Rightarrow> error + matrix" where
  "as_matrix a = (case a of FMat m \<Rightarrow> Inr m | _ \<Rightarrow> Inl Unsupported)"

text \<open>
  \<^verbatim>\<open>np.array_equal\<close>: the same shape and every pair of elements equal under \<^verbatim>\<open>==\<close>, so
  an array holding a \<open>nan\<close> is not equal to itself.  An integer array is compared with
  a float array by value.
\<close>

fun array_equal :: "ndarray \<Rightarrow> ndarray \<Rightarrow> bool" where
  "array_equal (FArr a) (FArr b) = list_all2 feq a b"
| "array_equal (IArr a) (IArr b) = (a = b)"
| "array_equal (FArr a) (IArr b) = list_all2 feq a (map (\<lambda>k. Fin (of_int k)) b)"
| "array_equal (IArr a) (FArr b) = list_all2 feq (map (\<lambda>k. Fin (of_int k)) a) b"
| "array_equal (FMat a) (FMat b) =
     (ncols a = ncols b \<and> list_all2 (list_all2 feq) (rows a) (rows b))"
| "array_equal a b = False"

text \<open>
  The six functions as calls on references.  Each allocates its result; only
  \<^verbatim>\<open>margin\<close> writes to an array that existed before the call.
\<close>

definition inverse_probability_call :: "heap \<Rightarrow> addr \<Rightarrow> addr \<Rightarrow> error + heap \<times> addr" where
  "inverse_probability_call h prediction y =
     bind (deref h prediction) (\<lambda>pa. bind (as_matrix pa) (\<lambda>m.
     bind (deref h y) (\<lambda>ya. bind (as_labels ya) (\<lambda>ys.
     bind (inverse_probability m ys) (\<lambda>res. Inr (alloc h (FArr res)))))))"

definition margin_call :: "heap \<Rightarrow> addr \<Rightarrow> addr \<Rightarrow> error + heap \<times> addr" where
  "margin_call h prediction y =
     bind (deref h prediction) (\<lambda>pa. bind (as_matrix pa) (\<lambda>m.
     bind (deref h y) (\<lambda>ya. bind (as_labels ya) (\<lambda>ys.
     bind (margin m ys) (\<lambda>res.
       Inr (alloc (h[prediction := FMat (snd res)]) (FArr (fst res))))))))"

definition absolute_error_call :: "heap \<Rightarrow> addr \<Rightarrow> addr \<Rightarrow> error + heap \<times> addr" where
  "absolute_error_call h prediction y =
     bind (deref h prediction) (\<lambda>pa. bind (as_floats pa) (\<lambda>ps.
     bind (deref h y) (\<lambda>ya. bind (as_floats ya) (\<lambda>ys.
     bind (absolute_error ps ys) (\<lambda>res. Inr (alloc h (FArr res)))))))"

definition signed_error_call :: "heap \<Rightarrow> addr \<Rightarrow> addr \<Rightarrow> error + heap \<times> addr" where
  "signed_error_call h prediction y =
     bind (deref h prediction) (\<lambda>pa. bind (as_floats pa) (\<lambda>ps.
     bind (deref h y) (\<lambda>ya. bind (as_floats ya) (\<lambda>ys.
     bind (signed_error ps ys) (\<lambda>res. Inr (alloc h (FArr res)))))))"

definition absolute_error_inverse_call ::
  "heap \<Rightarrow> addr \<Rightarrow> addr \<Rightarrow> real \<Rightarrow> error + heap \<times> addr" where
  "absolute_error_inverse_call h prediction nc significance =
     bind (deref h prediction) (\<lambda>pa. bind (as_floats pa) (\<lambda>ps.
     bind (deref h nc) (\<lambda>na. bind (as_floats na) (\<lambda>ns.
     bind (absolute_error_inverse ps ns significance) (\<lambda>res.
       Inr (alloc h (FMat \<lparr>ncols = 2, rows = res\<rparr>)))))))"

definition signed_error_inverse_call ::
  "heap \<Rightarrow> addr \<Rightarrow> addr \<Rightarrow> real \<Rightarrow> error + heap \<times> addr" where
  "signed_error_inverse_call h prediction nc significance =
     bind (deref h prediction) (\<lambda>pa. bind (as_floats pa) (\<lambda>ps.
     bind (deref h nc) (\<lambda>na. bind (as_floats na) (\<lambda>ns.
     bind (signed_error_inverse ps ns significance) (\<lambda>res.
       Inr (alloc h (FMat \<lparr>ncols = 2, rows = res\<rparr>)))))))"

subsection \<open>Notions used in the statements\<close>

text \<open>
  The maximum of the entries of a row other than entry \<open>c\<close>, for stating what
  \<^verbatim>\<open>margin\<close> returns; it is \<open>-inf\<close> for a row that has no other entry.
\<close>

definition max_remaining :: "npfloat list \<Rightarrow> nat \<Rightarrow> npfloat" where
  "max_remaining r c = foldl fmax NInf (take c r @ drop (Suc c) r)"

text \<open>
  A label vector fits a prediction matrix when it has one label for each row and every
  label is a column index from 0.
\<close>

definition labels_ok :: "matrix \<Rightarrow> int list \<Rightarrow> bool" where
  "labels_ok m y =
     (length y = length (rows m) \<and> list_all (\<lambda>j. 0 \<le> j \<and> j < int (ncols m)) y)"

text \<open>
  A row is a probability distribution when every entry is a number between 0 and 1 and
  the entries sum to 1.
\<close>

definition probability_row :: "npfloat list \<Rightarrow> bool" where
  "probability_row r =
     (list_all (\<lambda>e. fle (Fin 0) e \<and> fle e (Fin 1)) r \<and> foldl fadd (Fin 0) r = Fin 1)"

subsection \<open>The wrapped model\<close>

text \<open>
  The adapters are handed a model class and call three methods of the model that they
  construct from it.  The model is outside this code; it is assumed to follow the
  conventions of the common learning libraries: a method reads its arguments by value,
  changes no array of the caller, and inference returns a newly allocated array and
  leaves the model as it is.  Training yields a new state of the model.  Every method
  may raise.
\<close>

record ('p, 'm) estimator_class =
  construct :: "'p \<Rightarrow> 'm"
  fit_method :: "'m \<Rightarrow> ndarray \<Rightarrow> ndarray \<Rightarrow> error + 'm"
  predict_proba_method :: "'m \<Rightarrow> ndarray \<Rightarrow> error + ndarray"
  predict_method :: "'m \<Rightarrow> ndarray \<Rightarrow> error + ndarray"

text \<open>
  The world of an adapter: the store, and a log of the inputs with which the wrapped
  model's inference has been invoked.  The log is not part of the program; it is how
  the number of inference calls can be stated.
\<close>

record world =
  store :: heap
  inferences :: "ndarray list"

text \<open>\<^verbatim>\<open>np.array_equal\<close> of the arrays behind two references.\<close>

definition array_equal_at :: "heap \<Rightarrow> addr \<Rightarrow> addr \<Rightarrow> bool" where
  "array_equal_at h a b =
     (case deref h a of Inl e \<Rightarrow> False
      | Inr u \<Rightarrow> (case deref h b of Inl e \<Rightarrow> False | Inr v \<Rightarrow> array_equal u v))"

subsection \<open>Classification nonconformity function\<close>

record ('v, 'm) ProbEstClassifierNc =
  last_x :: "addr option"
  last_y :: "addr option"
  last_prediction :: "addr option"
  clean :: bool
  err_func :: "heap \<Rightarrow> addr \<Rightarrow> addr \<Rightarrow> error + heap \<times> addr"
  model_class :: "((string \<times> 'v) list, 'm) estimator_class"
  model_params :: "(string \<times> 'v) list"
  model :: 'm

text \<open>\<^verbatim>\<open>__init__\<close>; a missing or empty \<^verbatim>\<open>model_params\<close> becomes the empty dictionary.\<close>

definition ProbEstClassifierNc_init ::
  "((string \<times> 'v) list, 'm) estimator_class \<Rightarrow> (heap \<Rightarrow> addr \<Rightarrow> addr \<Rightarrow> error + heap \<times> addr)
     \<Rightarrow> (string \<times> 'v) list option \<Rightarrow> ('v, 'm) ProbEstClassifierNc" where
  "ProbEstClassifierNc_init mc ef mp =
     (let params = (case mp of None \<Rightarrow> [] | Some d \<Rightarrow> if d = [] then [] else d) in
      \<lparr>last_x = None, last_y = None, last_prediction = None, clean = False,
       err_func = ef, model_class = mc, model_params = params, model = construct mc params\<rparr>)"

text \<open>
  A method returns the world and the object as it leaves them, and either the
  exception it raised or its result.
\<close>

definition ProbEstClassifierNc_fit ::
  "world \<Rightarrow> ('v, 'm) ProbEstClassifierNc \<Rightarrow> addr \<Rightarrow> addr
     \<Rightarrow> world \<times> ('v, 'm) ProbEstClassifierNc \<times> (error + unit)" where
  "ProbEstClassifierNc_fit w self x y =
     (case deref (store w) x of Inl e \<Rightarrow> (w, self, Inl e) | Inr xv \<Rightarrow>
      case deref (store w) y of Inl e \<Rightarrow> (w, self, Inl e) | Inr yv \<Rightarrow>
      case fit_method (model_class self) (model self) xv yv of
        Inl e \<Rightarrow> (w, self, Inl e)
      | Inr m' \<Rightarrow> (w, self\<lparr>model := m', clean := False\<rparr>, Inr ()))"

text \<open>
  \<^verbatim>\<open>underlying_predict\<close>.  \<^verbatim>\<open>last_x\<close> is set to the reference \<^verbatim>\<open>x\<close>, not to a copy, and
  before the model is asked; \<^verbatim>\<open>copy()\<close> allocates.
\<close>

definition ProbEstClassifierNc_underlying_predict ::
  "world \<Rightarrow> ('v, 'm) ProbEstClassifierNc \<Rightarrow> addr
     \<Rightarrow> world \<times> ('v, 'm) ProbEstClassifierNc \<times> (error + addr)" where
  "ProbEstClassifierNc_underlying_predict w self x =
     (let (w, self, raised) =
        (if \<not> clean self \<or> last_x self = None
              \<or> \<not> (case last_x self of None \<Rightarrow> False
                      | Some lx \<Rightarrow> array_equal_at (store w) lx x)
         then
           (let self = self\<lparr>last_x := Some x\<rparr> in
            case deref (store w) x of Inl e \<Rightarrow> (w, self, Some e) | Inr xv \<Rightarrow>
            (let w = w\<lparr>inferences := inferences w @ [xv]\<rparr> in
             case predict_proba_method (model_class self) (model self) xv of
               Inl e \<Rightarrow> (w, self, Some e)
             | Inr pv \<Rightarrow>
                 (let (h, pa) = alloc (store w) pv in
                  (w\<lparr>store := h\<rparr>, self\<lparr>last_prediction := Some pa, clean := True\<rparr>, None))))
         else (w, self, None))
      in case raised of Some e \<Rightarrow> (w, self, Inl e) | None \<Rightarrow>
         (case last_prediction self of None \<Rightarrow> (w, self, Inl AttributeError)
          | Some pa \<Rightarrow>
             (case deref (store w) pa of Inl e \<Rightarrow> (w, self, Inl e)
              | Inr pv \<Rightarrow>
                 (let (h, ca) = alloc (store w) pv in (w\<lparr>store := h\<rparr>, self, Inr ca)))))"

definition ProbEstClassifierNc_calc_nc ::
  "world \<Rightarrow> ('v, 'm) ProbEstClassifierNc \<Rightarrow> addr \<Rightarrow> addr
     \<Rightarrow> world \<times> ('v, 'm) ProbEstClassifierNc \<times> (error + addr)" where
  "ProbEstClassifierNc_calc_nc w self x y =
     (let (w, self, r) = ProbEstClassifierNc_underlying_predict w self x in
      case r of Inl e \<Rightarrow> (w, self, Inl e) | Inr prediction \<Rightarrow>
      (case err_func self (store w) prediction y of
         Inl e \<Rightarrow> (w, self, Inl e)
       | Inr (h, a) \<Rightarrow> (w\<lparr>store := h\<rparr>, self, Inr a)))"

subsection \<open>Regression nonconformity function\<close>

record ('v, 'm) RegressorNc =
  last_x :: "addr option"
  last_y :: "addr option"
  last_prediction :: "addr option"
  clean :: bool
  err_func :: "heap \<Rightarrow> addr \<Rightarrow> addr \<Rightarrow> error + heap \<times> addr"
  inverse_err_func :: "heap \<Rightarrow> addr \<Rightarrow> addr \<Rightarrow> real \<Rightarrow> error + heap \<times> addr"
  model_class :: "((string \<times> 'v) list, 'm) estimator_class"
  model_params :: "(string \<times> 'v) list"
  model :: 'm

definition RegressorNc_init ::
  "((string \<times> 'v) list, 'm) estimator_class \<Rightarrow> (heap \<Rightarrow> addr \<Rightarrow> addr \<Rightarrow> error + heap \<times> addr)
     \<Rightarrow> (heap \<Rightarrow> addr \<Rightarrow> addr \<Rightarrow> real \<Rightarrow> error + heap \<times> addr)
     \<Rightarrow> (string \<times> 'v) list option \<Rightarrow> ('v, 'm) RegressorNc" where
  "RegressorNc_init mc ef ief mp =
     (let params = (case mp of None \<Rightarrow> [] | Some d \<Rightarrow> if d = [] then [] else d) in
      \<lparr>last_x = None, last_y = None, last_prediction = None, clean = False,
       err_func = ef, inverse_err_func = ief, model_class = mc, model_params = params,
       model = construct mc params\<rparr>)"

definition RegressorNc_fit ::
  "world \<Rightarrow> ('v, 'm) RegressorNc \<Rightarrow> addr \<Rightarrow> addr
     \<Rightarrow> world \<times> ('v, 'm) RegressorNc \<times> (error + unit)" where
  "RegressorNc_fit w self x y =
     (case deref (store w) x of Inl e \<Rightarrow> (w, self, Inl e) | Inr xv \<Rightarrow>
      case deref (store w) y of Inl e \<Rightarrow> (w, self, Inl e) | Inr yv \<Rightarrow>
      case fit_method (model_class self) (model self) xv yv of
        Inl e \<Rightarrow> (w, self, Inl e)
      | Inr m' \<Rightarrow> (w, self\<lparr>model := m', clean := False\<rparr>, Inr ()))"

definition RegressorNc_underlying_predict ::
  "world \<Rightarrow> ('v, 'm) RegressorNc \<Rightarrow> addr
     \<Rightarrow> world \<times> ('v, 'm) RegressorNc \<times> (error + addr)" where
  "RegressorNc_underlying_predict w self x =
     (let (w, self, raised) =
        (if \<not> clean self \<or> last_x self = None
              \<or> \<not> (case last_x self of None \<Rightarrow> False
                      | Some lx \<Rightarrow> array_equal_at (store w) lx x)
         then
           (let self = self\<lparr>last_x := Some x\<rparr> in
            case deref (store w) x of Inl e \<Rightarrow> (w, self, Some e) | Inr xv \<Rightarrow>
            (let w = w\<lparr>inferences := inferences w @ [xv]\<rparr> in
             case predict_method (model_class self) (model self) xv of
               Inl e \<Rightarrow> (w, self, Some e)
             | Inr pv \<Rightarrow>
                 (let (h, pa) = alloc (store w) pv in
                  (w\<lparr>store := h\<rparr>, self\<lparr>last_prediction := Some pa, clean := True\<rparr>, None))))
         else (w, self, None))
      in case raised of Some e \<Rightarrow> (w, self, Inl e) | None \<Rightarrow>
         (case last_prediction self of None \<Rightarrow> (w, self, Inl AttributeError)
          | Some pa \<Rightarrow>
             (case deref (store w) pa of Inl e \<Rightarrow> (w, self, Inl e)
              | Inr pv \<Rightarrow>
                 (let (h, ca) = alloc (store w) pv in (w\<lparr>store := h\<rparr>, self, Inr ca)))))"

definition RegressorNc_calc_nc ::
  "world \<Rightarrow> ('v, 'm) RegressorNc \<Rightarrow> addr \<Rightarrow> addr
     \<Rightarrow> world \<times> ('v, 'm) RegressorNc \<times> (error + addr)" where
  "RegressorNc_calc_nc w self x y =
     (let (w, self, r) = RegressorNc_underlying_predict w self x in
      case r of Inl e \<Rightarrow> (w, self, Inl e) | Inr prediction \<Rightarrow>
      (case err_func self (store w) prediction y of
         Inl e \<Rightarrow> (w, self, Inl e)
       | Inr (h, a) \<Rightarrow> (w\<lparr>store := h\<rparr>, self, Inr a)))"

definition RegressorNc_predict ::
  "world \<Rightarrow> ('v, 'm) RegressorNc \<Rightarrow> addr \<Rightarrow> addr \<Rightarrow> real
     \<Rightarrow> world \<times> ('v, 'm) RegressorNc \<times> (error + addr)" where
  "RegressorNc_predict w self x nc significance =
     (let (w, self, r) = RegressorNc_underlying_predict w self x in
      case r of Inl e \<Rightarrow> (w, self, Inl e) | Inr prediction \<Rightarrow>
      (case inverse_err_func self (store w) prediction nc significance of
         Inl e \<Rightarrow> (w, self, Inl e)
       | Inr (h, a) \<Rightarrow> (w\<lparr>store := h\<rparr>, self, Inr a)))"

subsection \<open>A model for the examples\<close>

text \<open>
  A model class for the examples: a model is the number of times it has been trained,
  \<^verbatim>\<open>predict_proba\<close> answers with one fixed row and \<^verbatim>\<open>predict\<close> with the number of
  trainings.
\<close>

definition demo_class :: "((string \<times> nat) list, nat) estimator_class" where
  "demo_class =
     \<lparr>construct = (\<lambda>params. 0),
      fit_method = (\<lambda>m x y. Inr (Suc m)),
      predict_proba_method =
        (\<lambda>m x. Inr (FMat \<lparr>ncols = 2, rows = [[Fin (1 / 5), Fin (4 / 5)]]\<rparr>)),
      predict_method = (\<lambda>m x. Inr (FArr [Fin (real m)]))\<rparr>"

section \<open>Properties\<close>

lemma fabs_fsub_commute: "fabs (fsub a b) = fabs (fsub b a)"
  by (cases a; cases b) (simp_all add: fsub_def)

lemma map2_Fin:
  "length p = length y \<Longrightarrow>
   map2 f (map Fin p) (map Fin y) = map (\<lambda>(a, b). f (Fin a) (Fin b)) (zip p y)"
  by (induction p y rule: list_induct2) simp_all

text \<open>
  Claim C8.  For two arrays of finite numbers of equal length, \<open>absolute_error\<close> gives the
  same array whichever way round the arguments are, every element of it is a finite
  number that is at least 0, and \<open>signed_error\<close> of the swapped arguments is the
  elementwise negation of \<open>signed_error\<close>.
\<close>

theorem error_functions_laws:
  assumes "length p = length y"
  shows "absolute_error (map Fin p) (map Fin y) = absolute_error (map Fin y) (map Fin p)
       \<and> (\<exists>r. absolute_error (map Fin p) (map Fin y) = Inr (map Fin r)
              \<and> length r = length p \<and> list_all (\<lambda>v. 0 \<le> v) r
              \<and> list_all (\<lambda>e. fle (Fin 0) e) (map Fin r))
       \<and> (\<exists>d. signed_error (map Fin y) (map Fin p) = Inr d
              \<and> signed_error (map Fin p) (map Fin y) = Inr (map fneg d))"
proof -
  have sym: "absolute_error (map Fin p) (map Fin y) = absolute_error (map Fin y) (map Fin p)"
    using assms
    by (induction p y rule: list_induct2)
       (simp_all add: absolute_error_def broadcast2_def bind_def fabs_fsub_commute)
  have val: "absolute_error (map Fin p) (map Fin y)
               = Inr (map Fin (map (\<lambda>(a, b). \<bar>a - b\<bar>) (zip p y)))"
    using assms
    by (auto simp add: absolute_error_def broadcast2_def bind_def map2_Fin fsub_def)
  have nonneg: "list_all (\<lambda>v. 0 \<le> v) (map (\<lambda>(a, b). \<bar>a - b\<bar>) (zip p y))"
    by (simp add: list_all_iff split_beta)
  have nonneg': "list_all (\<lambda>e. fle (Fin 0) e) (map Fin (map (\<lambda>(a, b). \<bar>a - b\<bar>) (zip p y)))"
    by (simp add: list_all_iff split_beta)
  have len: "length (map (\<lambda>(a, b). \<bar>a - b\<bar>) (zip p y)) = length p"
    using assms by simp
  have sgn1: "signed_error (map Fin y) (map Fin p) = Inr (map (\<lambda>(a, b). Fin (b - a)) (zip p y))"
    using assms
    by (induction p y rule: list_induct2) (simp_all add: signed_error_def broadcast2_def fsub_def)
  have sgn2: "signed_error (map Fin p) (map Fin y)
                = Inr (map fneg (map (\<lambda>(a, b). Fin (b - a)) (zip p y)))"
    using assms
    by (induction p y rule: list_induct2) (simp_all add: signed_error_def broadcast2_def fsub_def)
  show ?thesis
    using sym val nonneg nonneg' len sgn1 sgn2 by blast
qed

theorem error_functions_laws_witness:
  "absolute_error [Fin 1, Fin 5] [Fin 3, Fin 2] = absolute_error [Fin 3, Fin 2] [Fin 1, Fin 5]
   \<and> absolute_error [Fin 1, Fin 5] [Fin 3, Fin 2] = Inr [Fin 2, Fin 3]
   \<and> signed_error [Fin 3, Fin 2] [Fin 1, Fin 5] = Inr [Fin 2, Fin (- 3)]
   \<and> signed_error [Fin 1, Fin 5] [Fin 3, Fin 2] = Inr [Fin (- 2), Fin 3]"
  using error_functions_laws [of "[1, 5]" "[3, 2]"]
  by (simp add: absolute_error_def signed_error_def broadcast2_def bind_def fsub_def)

subsection \<open>Interval functions\<close>

lemma insort_rank_Fin: "insort_key sort_rank (Fin x) (map Fin ys) = map Fin (insort x ys)"
  by (induction ys) (simp_all add: less_eq_prod_def)

lemma np_sort_Fin: "np_sort (map Fin xs) = map Fin (sort xs)"
  by (induction xs) (simp_all add: np_sort_def insort_rank_Fin)

lemma getitem_nth: "0 \<le> j \<Longrightarrow> j < int (length xs) \<Longrightarrow> getitem xs j = Inr (xs ! nat j)"
  by (simp add: getitem_def np_index_def bind_def)

lemma getitem_map:
  "0 \<le> j \<Longrightarrow> j < int (length xs) \<Longrightarrow> getitem (map f xs) j = Inr (f (xs ! nat j))"
  by (simp add: getitem_def np_index_def bind_def)

lemma map2_same: "map2 f (map g xs) (map h xs) = map (\<lambda>x. f (g x) (h x)) xs"
  by (induction xs) simp_all

lemma border_in_range:
  assumes "0 < s" "s < 1"
  shows "max (\<lfloor>s * real (n + 1)\<rfloor> - 1) 0 < int n \<or> n = 0"
proof -
  have "s * real (n + 1) < real (n + 1)" using assms by simp
  then have "\<lfloor>s * real (n + 1)\<rfloor> < int (n + 1)" by (simp add: floor_less_iff)
  then show ?thesis by auto
qed

lemma absolute_error_inverse_finite:
  assumes "nc \<noteq> []" "0 < s" "s < 1"
  defines "border \<equiv> nat (max (\<lfloor>s * real (length nc + 1)\<rfloor> - 1) 0)"
  shows "border < length nc"
    and "absolute_error_inverse (map Fin p) (map Fin nc) s
           = Inr (map (\<lambda>x. [Fin (x - rev (sort nc) ! border), Fin (x + rev (sort nc) ! border)]) p)"
proof -
  let ?b = "max (\<lfloor>s * real (length nc + 1)\<rfloor> - 1) 0"
  have r: "0 \<le> ?b" "?b < int (length nc)"
    using border_in_range[OF assms(2,3), of "length nc"] assms(1) by auto
  from r show "border < length nc" unfolding border_def by linarith
  have g: "getitem (map Fin (rev (sort nc))) ?b = Inr (Fin (rev (sort nc) ! border))"
    unfolding border_def by (rule getitem_map) (use r in simp_all)
  show "absolute_error_inverse (map Fin p) (map Fin nc) s
           = Inr (map (\<lambda>x. [Fin (x - rev (sort nc) ! border), Fin (x + rev (sort nc) ! border)]) p)"
    using g by (simp add: absolute_error_inverse_def np_sort_Fin rev_map bind_def map2_same fsub_def)
qed

lemma absolute_error_inverse_scenario: "absolute_error_inverse (map Fin p) (map Fin [1, 2, 3, 4, 5]) 0.4
     = Inr (map (\<lambda>x. [Fin (x - 4), Fin (x + 4)]) p)"
  using absolute_error_inverse_finite(2)[of "[1,2,3,4,5]" "0.4" p]
  by simp

lemma desc_sorted: "sorted_wrt (\<lambda>a b. b \<le> a) (rev (sort (nc::real list)))"
  by (simp add: sorted_wrt_rev)

text \<open>
  Claim C2.  For a non-empty calibration pool of finite scores and a significance
  strictly between 0 and 1, \<open>absolute_error_inverse\<close> works on the pool sorted in
  descending order (a permutation \<open>d\<close> of the pool), takes the score at index
  \<open>max (floor (s * (n + 1)) - 1) 0\<close>, which is inside the pool, and returns for every
  sample \<open>x\<close> the row \<open>[x - d[border], x + d[border]]\<close>; so the upper bound minus the
  lower bound is \<open>2 * d[border]\<close> in every row.  With the pool \<open>[1, 2, 3, 4, 5]\<close> and
  significance 0.4 the bounds are the prediction minus and plus 4.
\<close>

theorem absolute_error_inverse_interval:
  assumes "nc \<noteq> []" "0 < s" "s < 1"
  shows "\<exists>d border.
      d = rev (sort nc) \<and> sorted_wrt (\<lambda>a b. b \<le> a) d \<and> mset d = mset nc
    \<and> rev (np_sort (map Fin nc)) = map Fin d
    \<and> int border = max (\<lfloor>s * real (length nc + 1)\<rfloor> - 1) 0 \<and> border < length nc
    \<and> absolute_error_inverse (map Fin p) (map Fin nc) s
        = Inr (map (\<lambda>x. [Fin (x - d ! border), Fin (x + d ! border)]) p)
    \<and> list_all (\<lambda>r. fsub (r ! 1) (r ! 0) = Fin (2 * d ! border))
        (map (\<lambda>x. [Fin (x - d ! border), Fin (x + d ! border)]) p)
    \<and> absolute_error_inverse (map Fin q) (map Fin [1, 2, 3, 4, 5]) 0.4
        = Inr (map (\<lambda>x. [Fin (x - 4), Fin (x + 4)]) q)"
proof -
  define border where "border = nat (max (\<lfloor>s * real (length nc + 1)\<rfloor> - 1) 0)"
  have b1: "border < length nc"
    and b2: "absolute_error_inverse (map Fin p) (map Fin nc) s
        = Inr (map (\<lambda>x. [Fin (x - rev (sort nc) ! border), Fin (x + rev (sort nc) ! border)]) p)"
    unfolding border_def using absolute_error_inverse_finite [OF assms] by blast+
  have b3: "int border = max (\<lfloor>s * real (length nc + 1)\<rfloor> - 1) 0"
    unfolding border_def by simp
  have b4: "list_all (\<lambda>r. fsub (r ! 1) (r ! 0) = Fin (2 * rev (sort nc) ! border))
        (map (\<lambda>x. [Fin (x - rev (sort nc) ! border), Fin (x + rev (sort nc) ! border)]) p)"
    by (simp add: list_all_iff fsub_def)
  have b5: "rev (np_sort (map Fin nc)) = map Fin (rev (sort nc))"
    by (simp add: np_sort_Fin rev_map)
  have b6: "mset (rev (sort nc)) = mset nc" by simp
  show ?thesis
    using b1 b2 b3 b4 b5 b6 desc_sorted [of nc] absolute_error_inverse_scenario [of q] by blast
qed

theorem absolute_error_inverse_interval_witness:
  "absolute_error_inverse [Fin 10, Fin 20] [Fin 3, Fin 1, Fin 2] (1 / 2)
     = Inr [[Fin 8, Fin 12], [Fin 18, Fin 22]]"
  using absolute_error_inverse_interval [of "[3, 1, 2]" "1 / 2" "[10, 20]" "[]"]
  by (simp add: nat_eq_iff)

lemma signed_indices:
  assumes "0 < n" "0 < s" "s < 1"
  defines "upper \<equiv> max \<lfloor>(s / 2) * real (n + 1)\<rfloor> 0"
      and "lower \<equiv> min \<lfloor>(1 - s / 2) * real (n + 1)\<rfloor> (int n - 1)"
  shows "0 \<le> upper" "upper \<le> lower" "lower < int n"
proof -
  have a: "(s / 2) * real (n + 1) < real n"
  proof -
    have "(s / 2) * real (n + 1) < (1 / 2) * real (n + 1)"
      using assms(2,3) by (intro mult_strict_right_mono) simp_all
    also have "\<dots> \<le> real n" using assms(1) by simp
    finally show ?thesis .
  qed
  have u: "\<lfloor>(s / 2) * real (n + 1)\<rfloor> < int n"
    using a by (simp add: floor_less_iff)
  have le: "(s / 2) * real (n + 1) \<le> (1 - s / 2) * real (n + 1)"
    using assms(2,3) by (intro mult_right_mono) simp_all
  have m: "\<lfloor>(s / 2) * real (n + 1)\<rfloor> \<le> \<lfloor>(1 - s / 2) * real (n + 1)\<rfloor>"
    using le by (rule floor_mono)
  have "0 \<le> (1 - s / 2) * real (n + 1)"
    using assms(2,3) by (intro mult_nonneg_nonneg) simp_all
  then have z: "0 \<le> \<lfloor>(1 - s / 2) * real (n + 1)\<rfloor>" by simp
  show "0 \<le> upper" by (simp add: upper_def)
  show "upper \<le> lower" using u m z assms(1) unfolding upper_def lower_def by linarith
  show "lower < int n" unfolding lower_def by linarith
qed

lemma signed_error_inverse_finite:
  assumes "nc \<noteq> []" "0 < s" "s < 1"
  defines "upper \<equiv> nat (max \<lfloor>(s / 2) * real (length nc + 1)\<rfloor> 0)"
      and "lower \<equiv> nat (min \<lfloor>(1 - s / 2) * real (length nc + 1)\<rfloor> (int (length nc) - 1))"
  shows "upper \<le> lower" "lower < length nc"
    and "signed_error_inverse (map Fin p) (map Fin nc) s
           = Inr (map (\<lambda>x. [Fin (x + rev (sort nc) ! lower), Fin (x + rev (sort nc) ! upper)]) p)"
proof -
  let ?u = "max \<lfloor>(s / 2) * real (length nc + 1)\<rfloor> 0"
  let ?l = "min \<lfloor>(1 - s / 2) * real (length nc + 1)\<rfloor> (int (length nc) - 1)"
  have n: "0 < length nc" using assms(1) by simp
  note r = signed_indices [OF n assms(2,3)]
  from r show ul: "upper \<le> lower" unfolding upper_def lower_def by linarith
  from r show ll: "lower < length nc" unfolding upper_def lower_def by linarith
  have gl: "getitem (map Fin (rev (sort nc))) ?l = Inr (Fin (rev (sort nc) ! lower))"
    unfolding lower_def by (rule getitem_map) (use r in simp_all)
  have gu: "getitem (map Fin (rev (sort nc))) ?u = Inr (Fin (rev (sort nc) ! upper))"
    unfolding upper_def by (rule getitem_map) (use r in simp_all)
  show "signed_error_inverse (map Fin p) (map Fin nc) s
           = Inr (map (\<lambda>x. [Fin (x + rev (sort nc) ! lower), Fin (x + rev (sort nc) ! upper)]) p)"
    using gl gu by (simp add: signed_error_inverse_def np_sort_Fin rev_map bind_def map2_same)
qed


text \<open>
  Claim C5.  For a non-empty calibration pool of finite scores and a significance
  strictly between 0 and 1, \<open>signed_error_inverse\<close> works on the pool sorted in
  descending order, computes the upper index \<open>floor ((s / 2) * (n + 1))\<close> clamped
  from below at 0 and the lower index \<open>floor ((1 - s / 2) * (n + 1))\<close> clamped from
  above at \<open>n - 1\<close>, both inside the pool, and returns for every sample \<open>x\<close> the row
  \<open>[x + d[lower_idx], x + d[upper_idx]]\<close>.
\<close>

theorem signed_error_inverse_interval:
  assumes "nc \<noteq> []" "0 < s" "s < 1"
  shows "\<exists>d upper_idx lower_idx.
      d = rev (sort nc) \<and> sorted_wrt (\<lambda>a b. b \<le> a) d \<and> mset d = mset nc
    \<and> rev (np_sort (map Fin nc)) = map Fin d
    \<and> int upper_idx = max \<lfloor>(s / 2) * real (length nc + 1)\<rfloor> 0
    \<and> int lower_idx = min \<lfloor>(1 - s / 2) * real (length nc + 1)\<rfloor> (int (length nc) - 1)
    \<and> upper_idx < length nc \<and> lower_idx < length nc
    \<and> signed_error_inverse (map Fin p) (map Fin nc) s
        = Inr (map (\<lambda>x. [Fin (x + d ! lower_idx), Fin (x + d ! upper_idx)]) p)"
proof -
  define u where "u = nat (max \<lfloor>(s / 2) * real (length nc + 1)\<rfloor> 0)"
  define l where "l = nat (min \<lfloor>(1 - s / 2) * real (length nc + 1)\<rfloor> (int (length nc) - 1))"
  have c1: "u \<le> l" and c2: "l < length nc"
    and c3: "signed_error_inverse (map Fin p) (map Fin nc) s
        = Inr (map (\<lambda>x. [Fin (x + rev (sort nc) ! l), Fin (x + rev (sort nc) ! u)]) p)"
    unfolding u_def l_def using signed_error_inverse_finite [OF assms] by blast+
  have n: "0 < length nc" using assms(1) by simp
  have c4: "int u = max \<lfloor>(s / 2) * real (length nc + 1)\<rfloor> 0"
    unfolding u_def by simp
  have c5: "int l = min \<lfloor>(1 - s / 2) * real (length nc + 1)\<rfloor> (int (length nc) - 1)"
    unfolding l_def using signed_indices [OF n assms(2,3)] by linarith
  have c6: "u < length nc" using c1 c2 by simp
  have c7: "rev (np_sort (map Fin nc)) = map Fin (rev (sort nc))"
    by (simp add: np_sort_Fin rev_map)
  have c8: "mset (rev (sort nc)) = mset nc" by simp
  show ?thesis
    using c2 c3 c4 c5 c6 c7 c8 desc_sorted [of nc] by blast
qed

theorem signed_error_inverse_interval_witness:
  "signed_error_inverse [Fin 10, Fin 20] [Fin 3, Fin 1, Fin 2, Fin 5, Fin 4] (2 / 5)
     = Inr [[Fin 11, Fin 14], [Fin 21, Fin 24]]"
  using signed_error_inverse_interval [of "[3, 1, 2, 5, 4]" "2 / 5" "[10, 20]"]
  by (simp add: nat_eq_iff)

text \<open>
  Claim C9.  Under the same conditions the clamped upper index is at most the clamped
  lower index, so in the descending pool the score at the lower index is at most the
  score at the upper index, and in every returned row the lower bound is at most the
  upper bound.
\<close>

theorem signed_error_inverse_well_formed:
  assumes "nc \<noteq> []" "0 < s" "s < 1"
  shows "max \<lfloor>(s / 2) * real (length nc + 1)\<rfloor> 0
           \<le> min \<lfloor>(1 - s / 2) * real (length nc + 1)\<rfloor> (int (length nc) - 1)
    \<and> (\<exists>d u l. d = rev (sort nc)
          \<and> int u = max \<lfloor>(s / 2) * real (length nc + 1)\<rfloor> 0
          \<and> int l = min \<lfloor>(1 - s / 2) * real (length nc + 1)\<rfloor> (int (length nc) - 1)
          \<and> u \<le> l \<and> l < length nc \<and> d ! l \<le> d ! u)
    \<and> (\<exists>rows. signed_error_inverse (map Fin p) (map Fin nc) s = Inr rows
          \<and> length rows = length p
          \<and> list_all (\<lambda>r. \<exists>lo hi. r = [Fin lo, Fin hi] \<and> lo \<le> hi) rows
          \<and> list_all (\<lambda>r. fle (r ! 0) (r ! 1)) rows)"
proof -
  define u where "u = nat (max \<lfloor>(s / 2) * real (length nc + 1)\<rfloor> 0)"
  define l where "l = nat (min \<lfloor>(1 - s / 2) * real (length nc + 1)\<rfloor> (int (length nc) - 1))"
  define d where "d = rev (sort nc)"
  have c1: "u \<le> l" and c2: "l < length nc"
    and c3: "signed_error_inverse (map Fin p) (map Fin nc) s
        = Inr (map (\<lambda>x. [Fin (x + d ! l), Fin (x + d ! u)]) p)"
    unfolding u_def l_def d_def using signed_error_inverse_finite [OF assms] by blast+
  have n: "0 < length nc" using assms(1) by simp
  note r = signed_indices [OF n assms(2,3)]
  have c4: "int u = max \<lfloor>(s / 2) * real (length nc + 1)\<rfloor> 0"
    unfolding u_def by simp
  have c5: "int l = min \<lfloor>(1 - s / 2) * real (length nc + 1)\<rfloor> (int (length nc) - 1)"
    unfolding l_def using r by linarith
  have "sorted (rev d)" by (simp add: d_def)
  then have c6: "d ! l \<le> d ! u"
    using c1 c2 by (intro sorted_rev_nth_mono) (simp_all add: d_def)
  have c7: "list_all (\<lambda>r. \<exists>lo hi. r = [Fin lo, Fin hi] \<and> lo \<le> hi)
              (map (\<lambda>x. [Fin (x + d ! l), Fin (x + d ! u)]) p)"
    using c6 by (simp add: list_all_iff)
  have c8: "list_all (\<lambda>r. fle (r ! 0) (r ! 1)) (map (\<lambda>x. [Fin (x + d ! l), Fin (x + d ! u)]) p)"
    using c6 by (simp add: list_all_iff)
  have c9: "length (map (\<lambda>x. [Fin (x + d ! l), Fin (x + d ! u)]) p) = length p" by simp
  have A: "max \<lfloor>(s / 2) * real (length nc + 1)\<rfloor> 0
           \<le> min \<lfloor>(1 - s / 2) * real (length nc + 1)\<rfloor> (int (length nc) - 1)"
    using r(2) .
  have B: "\<exists>d u l. d = rev (sort nc)
          \<and> int u = max \<lfloor>(s / 2) * real (length nc + 1)\<rfloor> 0
          \<and> int l = min \<lfloor>(1 - s / 2) * real (length nc + 1)\<rfloor> (int (length nc) - 1)
          \<and> u \<le> l \<and> l < length nc \<and> d ! l \<le> d ! u"
    using c1 c2 c4 c5 c6 d_def by blast
  have C: "\<exists>rows. signed_error_inverse (map Fin p) (map Fin nc) s = Inr rows
          \<and> length rows = length p
          \<and> list_all (\<lambda>r. \<exists>lo hi. r = [Fin lo, Fin hi] \<and> lo \<le> hi) rows
          \<and> list_all (\<lambda>r. fle (r ! 0) (r ! 1)) rows"
    using c3 c7 c8 c9 by blast
  show ?thesis using A B C by blast
qed

theorem signed_error_inverse_well_formed_witness:
  "max \<lfloor>((1 / 10) / 2) * real (length [7, 9 :: real] + 1)\<rfloor> 0 = 0
   \<and> min \<lfloor>(1 - (1 / 10) / 2) * real (length [7, 9 :: real] + 1)\<rfloor> (int (length [7, 9 :: real]) - 1) = 1
   \<and> signed_error_inverse [Fin 10] [Fin 7, Fin 9] (1 / 10) = Inr [[Fin 17, Fin 19]]"
  using signed_error_inverse_well_formed [of "[7, 9]" "1 / 10" "[10]"]
  by (simp add: signed_error_inverse_def np_sort_def getitem_def np_index_def bind_def)

subsection \<open>Classification error functions\<close>

lemma fmax_assoc: "fmax (fmax a b) c = fmax a (fmax b c)"
  by (cases a; cases b; cases c) simp_all

lemma fmax_NInf_left: "fmax NInf a = a"
  by (cases a) simp_all

lemma fmax_NInf_right: "fmax a NInf = a"
  by (cases a) simp_all

lemma foldl_fmax: "foldl fmax a xs = fmax a (foldl fmax NInf xs)"
proof (induction xs arbitrary: a)
  case Nil
  show ?case by (simp add: fmax_NInf_right)
next
  case (Cons x xs)
  have "foldl fmax a (x # xs) = fmax (fmax a x) (foldl fmax NInf xs)"
    using Cons.IH [of "fmax a x"] by simp
  also have "\<dots> = fmax a (fmax x (foldl fmax NInf xs))" by (rule fmax_assoc)
  also have "\<dots> = fmax a (foldl fmax NInf (x # xs))"
    using Cons.IH [of x] by (simp add: fmax_NInf_left)
  finally show ?case .
qed

lemma foldl_fmax_append:
  "foldl fmax NInf (xs @ ys) = fmax (foldl fmax NInf xs) (foldl fmax NInf ys)"
  using foldl_fmax [of "foldl fmax NInf xs" ys] by simp

lemma row_max_overwritten:
  assumes "c < length r"
  shows "foldl fmax (hd (r[c := NInf])) (tl (r[c := NInf])) = max_remaining r c"
proof -
  have ne: "r[c := NInf] \<noteq> []" using assms by auto
  have a: "foldl fmax (hd (r[c := NInf])) (tl (r[c := NInf])) = foldl fmax NInf (r[c := NInf])"
    using ne by (cases "r[c := NInf]") (simp_all add: fmax_NInf_left)
  have b: "r[c := NInf] = take c r @ NInf # drop (Suc c) r"
    using assms by (rule upd_conv_take_nth_drop)
  have c: "foldl fmax NInf (take c r @ NInf # drop (Suc c) r) = max_remaining r c"
    unfolding max_remaining_def by (simp add: fmax_NInf_right)
  show ?thesis unfolding a using b c by simp
qed

lemma foldM_snoc: "foldM f s (xs @ [x]) = bind (foldM f s xs) (\<lambda>s'. f s' x)"
  by (induction xs arbitrary: s) (simp_all add: bind_def split: sum.splits)

lemma enumerate_take_Suc:
  "k < length y \<Longrightarrow> enumerate 0 (take (Suc k) y) = enumerate 0 (take k y) @ [(k, y ! k)]"
  by (simp add: take_Suc_conv_app_nth enumerate_append_eq)

lemma np_index_nat: "i < n \<Longrightarrow> np_index n (int i) = Inr i"
  by (simp add: np_index_def)

lemma np_index_in_range: "0 \<le> j \<Longrightarrow> j < int n \<Longrightarrow> np_index n j = Inr (nat j)"
  by (simp add: np_index_def)

lemma margin_loop_prefix:
  assumes "labels_ok m y" "k \<le> length y"
  shows "foldM (margin_step y) (replicate (length y) (Fin 0), m) (enumerate 0 (take k y))
       = Inr (map (\<lambda>i. rows m ! i ! nat (y ! i)) [0..<k] @ replicate (length y - k) (Fin 0),
              m\<lparr>rows := map (\<lambda>i. (rows m ! i)[nat (y ! i) := NInf]) [0..<k] @ drop k (rows m)\<rparr>)"
  using assms(2)
proof (induction k)
  case 0
  show ?case by simp
next
  case (Suc k)
  have k: "k < length y" "k < length (rows m)" using Suc.prems assms(1) by (simp_all add: labels_ok_def)
  have yk: "0 \<le> y ! k" "y ! k < int (ncols m)"
    using assms(1) k(1) by (simp_all add: labels_ok_def list_all_length)
  let ?P = "map (\<lambda>i. rows m ! i ! nat (y ! i)) [0..<k]"
  let ?R = "map (\<lambda>i. (rows m ! i)[nat (y ! i) := NInf]) [0..<k]"
  let ?mk = "m\<lparr>rows := ?R @ drop k (rows m)\<rparr>"
  have IH: "foldM (margin_step y) (replicate (length y) (Fin 0), m) (enumerate 0 (take k y))
       = Inr (?P @ replicate (length y - k) (Fin 0), ?mk)"
    using Suc.IH k(1) by simp
  have len: "length (rows ?mk) = length (rows m)" using k(2) by simp
  have rowk: "rows ?mk ! k = rows m ! k"
    using k(2) by (simp add: nth_append)
  have g: "getitem2 ?mk (int k) (y ! k) = Inr (rows m ! k ! nat (y ! k))"
    unfolding getitem2_def len
    using k(2) yk rowk by (simp add: np_index_nat np_index_in_range bind_def)
  have upd: "(?R @ drop k (rows m))[k := (rows m ! k)[nat (y ! k) := NInf]]
           = map (\<lambda>i. (rows m ! i)[nat (y ! i) := NInf]) [0..<Suc k] @ drop (Suc k) (rows m)"
    using k(2) by (simp add: list_update_append Cons_nth_drop_Suc [symmetric])
  have s: "setitem2 ?mk (int k) (y ! k) NInf
      = Inr (m\<lparr>rows := map (\<lambda>i. (rows m ! i)[nat (y ! i) := NInf]) [0..<Suc k] @ drop (Suc k) (rows m)\<rparr>)"
    unfolding setitem2_def len
    using k(2) yk rowk upd by (simp add: np_index_nat np_index_in_range bind_def)
  have pr: "(?P @ replicate (length y - k) (Fin 0))[k := rows m ! k ! nat (y ! k)]
           = map (\<lambda>i. rows m ! i ! nat (y ! i)) [0..<Suc k] @ replicate (length y - Suc k) (Fin 0)"
  proof -
    have "replicate (length y - k) (Fin 0) = Fin 0 # replicate (length y - Suc k) (Fin 0)"
      using k(1) by (simp add: Suc_diff_Suc replicate_Suc [symmetric] del: replicate_Suc)
    then show ?thesis by (simp add: list_update_append)
  qed
  show ?case
    unfolding enumerate_take_Suc [OF k(1)] foldM_snoc IH
    using g s pr by (simp add: bind_def margin_step_def)
qed


lemma foldl_fmax_Fin: "foldl fmax (Fin a) (map Fin xs) = Fin (fold max xs a)"
  by (induction xs arbitrary: a) (simp_all add: max.commute)

lemma max_remaining_finite:
  assumes "r = map Fin v" "c < length v" "2 \<le> length v"
  shows "max_remaining r c = Fin (Max (set (take c v @ drop (Suc c) v)))"
proof -
  obtain x xs where o: "take c v @ drop (Suc c) v = x # xs"
    using assms(2,3) by (cases "take c v @ drop (Suc c) v") auto
  have "max_remaining r c = foldl fmax NInf (map Fin (take c v @ drop (Suc c) v))"
    unfolding max_remaining_def assms(1) by (simp add: take_map drop_map)
  also have "\<dots> = Fin (fold max xs x)"
    unfolding o by (simp add: foldl_fmax_Fin)
  also have "fold max xs x = Max (set (x # xs))" by (rule Max.set_eq_fold [symmetric])
  finally show ?thesis using o by simp
qed

lemma margin_result:
  assumes "wf_matrix m" "0 < ncols m" "labels_ok m y"
  shows "margin m y
       = Inr (map (\<lambda>i. fsub (Fin (1 / 2))
                      (fhalve (fsub (rows m ! i ! nat (y ! i))
                                 (max_remaining (rows m ! i) (nat (y ! i))))))
                [0..<length y],
              m\<lparr>rows := map (\<lambda>i. (rows m ! i)[nat (y ! i) := NInf]) [0..<length y]\<rparr>)"
proof -
  let ?n = "length y"
  let ?P = "map (\<lambda>i. rows m ! i ! nat (y ! i)) [0..<?n]"
  let ?m' = "m\<lparr>rows := map (\<lambda>i. (rows m ! i)[nat (y ! i) := NInf]) [0..<?n]\<rparr>"
  have n: "?n = length (rows m)" using assms(3) by (simp add: labels_ok_def)
  have loop: "foldM (margin_step y) (replicate ?n (Fin 0), m) (enumerate 0 y) = Inr (?P, ?m')"
    using margin_loop_prefix [OF assms(3), of ?n] n by simp
  have c: "nat (y ! i) < length (rows m ! i)" if "i < ?n" for i
  proof -
    have "0 \<le> y ! i" "y ! i < int (ncols m)"
      using assms(3) that by (simp_all add: labels_ok_def list_all_length)
    moreover have "length (rows m ! i) = ncols m"
      using assms(1) that n by (simp add: wf_matrix_def list_all_length)
    ultimately show ?thesis by linarith
  qed
  have mx: "max_axis1 ?m' = Inr (map (\<lambda>i. max_remaining (rows m ! i) (nat (y ! i))) [0..<?n])"
    using assms(2) c by (simp add: max_axis1_def row_max_overwritten)
  have bc: "broadcast2 fsub ?P (map (\<lambda>i. max_remaining (rows m ! i) (nat (y ! i))) [0..<?n])
        = Inr (map (\<lambda>i. fsub (rows m ! i ! nat (y ! i)) (max_remaining (rows m ! i) (nat (y ! i))))
                 [0..<?n])"
    by (simp add: broadcast2_def map2_same)
  show ?thesis
    unfolding margin_def loop
    by (simp add: bind_def mx bc Let_def comp_def)
qed

text \<open>
  Claim C3.  For a prediction matrix with at least one column and a label vector that
  fits it, \<open>margin\<close> returns for every sample \<open>i\<close> the value
  \<open>0.5 - (true_prob - max_remaining_prob) / 2\<close>, where \<open>true_prob\<close> is the entry
  \<open>prediction[i, y[i]]\<close> before the call and \<open>max_remaining_prob\<close> the maximum of the
  other entries of row \<open>i\<close> (for rows of finite numbers and at least two columns, the
  real number \<open>1/2 - (p - Max others) / 2\<close>).  The matrix that the call leaves behind
  has the same shape, holds \<open>-inf\<close> at \<open>[i, y[i]]\<close> for every sample and the original
  value everywhere else.
\<close>

theorem margin_scores_and_overwrite:
  assumes "wf_matrix m" "0 < ncols m" "labels_ok m y"
  shows "\<exists>res m'. margin m y = Inr (res, m') \<and> length res = length y
    \<and> (\<forall>i<length y. res ! i = fsub (Fin (1 / 2))
          (fhalve (fsub (rows m ! i ! nat (y ! i)) (max_remaining (rows m ! i) (nat (y ! i))))))
    \<and> ncols m' = ncols m \<and> length (rows m') = length (rows m) \<and> wf_matrix m'
    \<and> (\<forall>i<length (rows m). \<forall>j<ncols m.
          rows m' ! i ! j = (if j = nat (y ! i) then NInf else rows m ! i ! j))
    \<and> (\<forall>i<length y. \<forall>v. rows m ! i = map Fin v \<and> 2 \<le> ncols m \<longrightarrow>
          res ! i = Fin (1 / 2 - (v ! nat (y ! i)
                      - Max (set (take (nat (y ! i)) v @ drop (Suc (nat (y ! i))) v))) / 2))"
proof -
  let ?res = "map (\<lambda>i. fsub (Fin (1 / 2))
                      (fhalve (fsub (rows m ! i ! nat (y ! i))
                                 (max_remaining (rows m ! i) (nat (y ! i))))))
                [0..<length y]"
  let ?m' = "m\<lparr>rows := map (\<lambda>i. (rows m ! i)[nat (y ! i) := NInf]) [0..<length y]\<rparr>"
  have n: "length y = length (rows m)" using assms(3) by (simp add: labels_ok_def)
  have len: "length (rows m ! i) = ncols m" if "i < length (rows m)" for i
    using assms(1) that by (simp add: wf_matrix_def list_all_length)
  have r: "margin m y = Inr (?res, ?m')" by (rule margin_result [OF assms])
  have a: "length ?res = length y" by simp
  have b: "\<forall>i<length y. ?res ! i = fsub (Fin (1 / 2))
          (fhalve (fsub (rows m ! i ! nat (y ! i)) (max_remaining (rows m ! i) (nat (y ! i)))))"
    by simp
  have c: "ncols ?m' = ncols m" "length (rows ?m') = length (rows m)" using n by simp_all
  have d: "wf_matrix ?m'"
    using len n by (simp add: wf_matrix_def list_all_length)
  have e: "\<forall>i<length (rows m). \<forall>j<ncols m.
          rows ?m' ! i ! j = (if j = nat (y ! i) then NInf else rows m ! i ! j)"
    using len n by (simp add: nth_list_update)
  have f: "\<forall>i<length y. \<forall>v. rows m ! i = map Fin v \<and> 2 \<le> ncols m \<longrightarrow>
          ?res ! i = Fin (1 / 2 - (v ! nat (y ! i)
                      - Max (set (take (nat (y ! i)) v @ drop (Suc (nat (y ! i))) v))) / 2)"
  proof (intro allI impI)
    fix i v
    assume i: "i < length y" and v: "rows m ! i = map Fin v \<and> 2 \<le> ncols m"
    have lv: "length v = ncols m" using len [of i] i n v by simp
    have "0 \<le> y ! i" "y ! i < int (ncols m)"
      using assms(3) i by (simp_all add: labels_ok_def list_all_length)
    then have cv: "nat (y ! i) < length v" using lv by linarith
    have "max_remaining (rows m ! i) (nat (y ! i))
            = Fin (Max (set (take (nat (y ! i)) v @ drop (Suc (nat (y ! i))) v)))"
      using v lv cv by (intro max_remaining_finite) simp_all
    then show "?res ! i = Fin (1 / 2 - (v ! nat (y ! i)
                      - Max (set (take (nat (y ! i)) v @ drop (Suc (nat (y ! i))) v))) / 2)"
      using i v cv by (simp add: fsub_def)
  qed
  show ?thesis using r a b c d e f by blast
qed

theorem margin_scores_and_overwrite_witness:
  "wf_matrix \<lparr>ncols = 2, rows = [[Fin (7 / 10), Fin (3 / 10)], [Fin (1 / 5), Fin (4 / 5)]]\<rparr>
   \<and> labels_ok \<lparr>ncols = 2, rows = [[Fin (7 / 10), Fin (3 / 10)], [Fin (1 / 5), Fin (4 / 5)]]\<rparr> [0, 1]
   \<and> margin \<lparr>ncols = 2, rows = [[Fin (7 / 10), Fin (3 / 10)], [Fin (1 / 5), Fin (4 / 5)]]\<rparr> [0, 1]
       = Inr ([Fin (3 / 10), Fin (1 / 5)],
              \<lparr>ncols = 2, rows = [[NInf, Fin (3 / 10)], [Fin (1 / 5), NInf]]\<rparr>)"
  using margin_scores_and_overwrite
    [of "\<lparr>ncols = 2, rows = [[Fin (7 / 10), Fin (3 / 10)], [Fin (1 / 5), Fin (4 / 5)]]\<rparr>" "[0, 1]"]
  by (simp add: wf_matrix_def labels_ok_def margin_def margin_step_def getitem2_def setitem2_def
        np_index_def bind_def max_axis1_def broadcast2_def fsub_def)

lemma unit_entries_finite:
  "list_all (\<lambda>e. fle (Fin 0) e \<and> fle e (Fin 1)) r \<Longrightarrow>
   \<exists>v. r = map Fin v \<and> list_all (\<lambda>p. 0 \<le> p \<and> p \<le> 1) v"
proof (induction r)
  case Nil
  show ?case by simp
next
  case (Cons e r)
  then obtain v where v: "r = map Fin v" "list_all (\<lambda>p. 0 \<le> p \<and> p \<le> 1) v" by auto
  from Cons.prems obtain p where p: "e = Fin p" "0 \<le> p" "p \<le> 1"
    by (cases e) simp_all
  have "e # r = map Fin (p # v) \<and> list_all (\<lambda>p. 0 \<le> p \<and> p \<le> 1) (p # v)"
    using v p by simp
  then show ?case by (rule exI)
qed

lemma half_margin_lower:
  "(p::real) \<le> 1 \<Longrightarrow> 0 \<le> q \<Longrightarrow> 0 \<le> 1 / 2 - (p - q) / 2"
  by (simp add: field_simps)

lemma half_margin_upper:
  "0 \<le> (p::real) \<Longrightarrow> q \<le> 1 \<Longrightarrow> 1 / 2 - (p - q) / 2 \<le> 1"
  by (simp add: field_simps)

lemma margin_unit_score:
  assumes "list_all (\<lambda>p. 0 \<le> p \<and> p \<le> (1::real)) v" "c < length v" "2 \<le> length v"
  shows "\<exists>s. fsub (Fin (1 / 2)) (fhalve (fsub (map Fin v ! c) (max_remaining (map Fin v) c))) = Fin s
           \<and> 0 \<le> s \<and> s \<le> 1"
proof -
  let ?o = "take c v @ drop (Suc c) v"
  have ne: "?o \<noteq> []" using assms(2,3) by (cases "take c v @ drop (Suc c) v") auto
  have "Max (set ?o) \<in> set ?o" using ne by (intro Max_in) simp_all
  moreover have "set ?o \<subseteq> set v"
    using set_take_subset [of c v] set_drop_subset [of "Suc c" v] by auto
  ultimately have q: "0 \<le> Max (set ?o)" "Max (set ?o) \<le> 1"
    using assms(1) by (auto simp add: list_all_iff)
  have p: "0 \<le> v ! c" "v ! c \<le> 1"
    using assms(1,2) by (simp_all add: list_all_length)
  have "fsub (Fin (1 / 2)) (fhalve (fsub (map Fin v ! c) (max_remaining (map Fin v) c)))
          = Fin (1 / 2 - (v ! c - Max (set ?o)) / 2)"
    using assms(2,3) by (simp add: max_remaining_finite [of _ v] fsub_def)
  moreover have "0 \<le> 1 / 2 - (v ! c - Max (set ?o)) / 2"
    using p q by (intro half_margin_lower)
  moreover have "1 / 2 - (v ! c - Max (set ?o)) / 2 \<le> 1"
    using p q by (intro half_margin_upper)
  ultimately show ?thesis by blast
qed

text \<open>
  Claim C4, as amended.  For a prediction matrix with at least two columns whose rows
  are probability distributions and a label vector that fits it, every element of the
  array returned by \<open>margin\<close> is a number between 0 and 1.
\<close>

theorem margin_range:
  assumes "wf_matrix m" "2 \<le> ncols m" "labels_ok m y" "list_all probability_row (rows m)"
  shows "\<exists>res m'. margin m y = Inr (res, m')
           \<and> list_all (\<lambda>e. fle (Fin 0) e \<and> fle e (Fin 1)) res"
proof -
  let ?f = "\<lambda>i. fsub (Fin (1 / 2))
                      (fhalve (fsub (rows m ! i ! nat (y ! i))
                                 (max_remaining (rows m ! i) (nat (y ! i)))))"
  have pos: "0 < ncols m" using assms(2) by simp
  have n: "length y = length (rows m)" using assms(3) by (simp add: labels_ok_def)
  have r: "margin m y = Inr (map ?f [0..<length y],
              m\<lparr>rows := map (\<lambda>i. (rows m ! i)[nat (y ! i) := NInf]) [0..<length y]\<rparr>)"
    by (rule margin_result [OF assms(1) pos assms(3)])
  have "fle (Fin 0) (?f i) \<and> fle (?f i) (Fin 1)" if i: "i < length y" for i
  proof -
    have "probability_row (rows m ! i)"
      using assms(4) i n by (simp add: list_all_length)
    then obtain v where v: "rows m ! i = map Fin v" "list_all (\<lambda>p. 0 \<le> p \<and> p \<le> 1) v"
      using unit_entries_finite [of "rows m ! i"] by (auto simp add: probability_row_def)
    have "length (rows m ! i) = ncols m"
      using assms(1) i n by (simp add: wf_matrix_def list_all_length)
    then have lv: "length v = ncols m" using v(1) by simp
    have "0 \<le> y ! i" "y ! i < int (ncols m)"
      using assms(3) i by (simp_all add: labels_ok_def list_all_length)
    then have cv: "nat (y ! i) < length v" using lv by linarith
    obtain s where "?f i = Fin s" "0 \<le> s" "s \<le> 1"
      using margin_unit_score [OF v(2) cv] lv assms(2) unfolding v(1) by auto
    then show ?thesis by simp
  qed
  then have "list_all (\<lambda>e. fle (Fin 0) e \<and> fle e (Fin 1)) (map ?f [0..<length y])"
    by (simp add: list_all_iff)
  then show ?thesis using r by blast
qed

theorem margin_range_witness:
  "wf_matrix \<lparr>ncols = 2, rows = [[Fin (1 / 5), Fin (4 / 5)]]\<rparr>
   \<and> labels_ok \<lparr>ncols = 2, rows = [[Fin (1 / 5), Fin (4 / 5)]]\<rparr> [0]
   \<and> probability_row [Fin (1 / 5), Fin (4 / 5)]
   \<and> margin \<lparr>ncols = 2, rows = [[Fin (1 / 5), Fin (4 / 5)]]\<rparr> [0]
       = Inr ([Fin (4 / 5)], \<lparr>ncols = 2, rows = [[NInf, Fin (4 / 5)]]\<rparr>)"
  using margin_range [of "\<lparr>ncols = 2, rows = [[Fin (1 / 5), Fin (4 / 5)]]\<rparr>" "[0]"]
  by (simp add: wf_matrix_def labels_ok_def probability_row_def margin_def margin_step_def
        getitem2_def setitem2_def np_index_def bind_def max_axis1_def broadcast2_def fsub_def)

text \<open>
  The claim as the specification states it, with the interval from -0.5 to 0.5, fails:
  the one-row matrix \<open>[[0.2, 0.8]]\<close> is a probability distribution, and for the label 0
  \<open>margin\<close> returns 0.8, which is above 0.5.
\<close>

theorem margin_range_counterexample:
  "probability_row [Fin (1 / 5), Fin (4 / 5)]
   \<and> margin \<lparr>ncols = 2, rows = [[Fin (1 / 5), Fin (4 / 5)]]\<rparr> [0]
       = Inr ([Fin (4 / 5)], \<lparr>ncols = 2, rows = [[NInf, Fin (4 / 5)]]\<rparr>)
   \<and> \<not> fle (Fin (4 / 5)) (Fin (1 / 2))"
  by (simp add: probability_row_def margin_def margin_step_def
        getitem2_def setitem2_def np_index_def bind_def max_axis1_def broadcast2_def fsub_def)

lemma inverse_probability_loop_prefix:
  assumes "labels_ok m y" "k \<le> length y"
  shows "foldM (inverse_probability_step m y) (replicate (length y) (Fin 0))
           (enumerate 0 (take k y))
       = Inr (map (\<lambda>i. rows m ! i ! nat (y ! i)) [0..<k] @ replicate (length y - k) (Fin 0))"
  using assms(2)
proof (induction k)
  case 0
  show ?case by simp
next
  case (Suc k)
  have k: "k < length y" "k < length (rows m)"
    using Suc.prems assms(1) by (simp_all add: labels_ok_def)
  have yk: "0 \<le> y ! k" "y ! k < int (ncols m)"
    using assms(1) k(1) by (simp_all add: labels_ok_def list_all_length)
  let ?P = "map (\<lambda>i. rows m ! i ! nat (y ! i)) [0..<k]"
  have IH: "foldM (inverse_probability_step m y) (replicate (length y) (Fin 0))
              (enumerate 0 (take k y))
       = Inr (?P @ replicate (length y - k) (Fin 0))"
    using Suc.IH k(1) by simp
  have g: "getitem2 m (int k) (y ! k) = Inr (rows m ! k ! nat (y ! k))"
    unfolding getitem2_def
    using k(2) yk by (simp add: np_index_nat np_index_in_range bind_def)
  have pr: "(?P @ replicate (length y - k) (Fin 0))[k := rows m ! k ! nat (y ! k)]
           = map (\<lambda>i. rows m ! i ! nat (y ! i)) [0..<Suc k] @ replicate (length y - Suc k) (Fin 0)"
  proof -
    have "replicate (length y - k) (Fin 0) = Fin 0 # replicate (length y - Suc k) (Fin 0)"
      using k(1) by (simp add: Suc_diff_Suc replicate_Suc [symmetric] del: replicate_Suc)
    then show ?thesis by (simp add: list_update_append)
  qed
  show ?case
    unfolding enumerate_take_Suc [OF k(1)] foldM_snoc IH
    using g pr by (simp add: bind_def inverse_probability_step_def)
qed

lemma inverse_probability_result:
  assumes "labels_ok m y"
  shows "inverse_probability m y
       = Inr (map (\<lambda>i. fsub (Fin 1) (rows m ! i ! nat (y ! i))) [0..<length y])"
  unfolding inverse_probability_def
  using inverse_probability_loop_prefix [OF assms, of "length y"]
  by (simp add: bind_def comp_def)

lemma inverse_probability_scenario:
  "inverse_probability
     \<lparr>ncols = 2, rows = [[Fin (7 / 10), Fin (3 / 10)], [Fin (2 / 10), Fin (8 / 10)]]\<rparr> [0, 1]
   = Inr [Fin (3 / 10), Fin (2 / 10)]"
  by (simp add: inverse_probability_result labels_ok_def fsub_def upt_rec)

text \<open>
  Claim C6.  For a prediction matrix and a label vector that fits it,
  \<open>inverse_probability\<close> returns for every sample \<open>i\<close> the value
  \<open>1 - prediction[i, y[i]]\<close>, in a newly allocated array: the store after the call is
  the store before it with the result appended, so no existing array is changed.  When
  the rows are probability distributions every returned value is a number between 0
  and 1, and it is 0 exactly when the entry of the true class is 1.  For the matrix
  \<open>[[0.7, 0.3], [0.2, 0.8]]\<close> and the labels \<open>[0, 1]\<close> the result is \<open>[0.3, 0.2]\<close>.
\<close>

theorem inverse_probability_spec:
  assumes "pa < length h" "h ! pa = FMat m" "ya < length h" "h ! ya = IArr y"
    and "wf_matrix m" "labels_ok m y"
  shows "\<exists>res. inverse_probability_call h pa ya = Inr (h @ [FArr res], length h)
    \<and> inverse_probability m y = Inr res
    \<and> length res = length y
    \<and> (\<forall>i<length y. res ! i = fsub (Fin 1) (rows m ! i ! nat (y ! i)))
    \<and> (list_all probability_row (rows m) \<longrightarrow>
         (\<forall>i<length y. \<exists>p. rows m ! i ! nat (y ! i) = Fin p \<and> res ! i = Fin (1 - p)
              \<and> 0 \<le> 1 - p \<and> 1 - p \<le> 1 \<and> (res ! i = Fin 0 \<longleftrightarrow> p = 1)))
    \<and> inverse_probability
         \<lparr>ncols = 2, rows = [[Fin (7 / 10), Fin (3 / 10)], [Fin (2 / 10), Fin (8 / 10)]]\<rparr> [0, 1]
       = Inr [Fin (3 / 10), Fin (2 / 10)]"
proof -
  let ?res = "map (\<lambda>i. fsub (Fin 1) (rows m ! i ! nat (y ! i))) [0..<length y]"
  have n: "length y = length (rows m)" using assms(6) by (simp add: labels_ok_def)
  have r: "inverse_probability m y = Inr ?res"
    by (rule inverse_probability_result [OF assms(6)])
  have a: "inverse_probability_call h pa ya = Inr (h @ [FArr ?res], length h)"
    using assms(1-4) r
    by (simp add: inverse_probability_call_def deref_def as_matrix_def as_labels_def
          bind_def alloc_def)
  have b: "length ?res = length y" by simp
  have c: "\<forall>i<length y. ?res ! i = fsub (Fin 1) (rows m ! i ! nat (y ! i))" by simp
  have d: "list_all probability_row (rows m) \<longrightarrow>
         (\<forall>i<length y. \<exists>p. rows m ! i ! nat (y ! i) = Fin p \<and> ?res ! i = Fin (1 - p)
              \<and> 0 \<le> 1 - p \<and> 1 - p \<le> 1 \<and> (?res ! i = Fin 0 \<longleftrightarrow> p = 1))"
  proof (intro impI allI)
    fix i
    assume pr: "list_all probability_row (rows m)" and i: "i < length y"
    have "probability_row (rows m ! i)"
      using pr i n by (simp add: list_all_length)
    then obtain v where v: "rows m ! i = map Fin v" "list_all (\<lambda>p. 0 \<le> p \<and> p \<le> 1) v"
      using unit_entries_finite [of "rows m ! i"] by (auto simp add: probability_row_def)
    have "length (rows m ! i) = ncols m"
      using assms(5) i n by (simp add: wf_matrix_def list_all_length)
    then have lv: "length v = ncols m" using v(1) by simp
    have "0 \<le> y ! i" "y ! i < int (ncols m)"
      using assms(6) i by (simp_all add: labels_ok_def list_all_length)
    then have cv: "nat (y ! i) < length v" using lv by linarith
    have e: "rows m ! i ! nat (y ! i) = Fin (v ! nat (y ! i))"
      using v(1) cv by simp
    have u: "0 \<le> v ! nat (y ! i)" "v ! nat (y ! i) \<le> 1"
      using v(2) cv by (simp_all add: list_all_length)
    have "rows m ! i ! nat (y ! i) = Fin (v ! nat (y ! i))
          \<and> ?res ! i = Fin (1 - v ! nat (y ! i))
          \<and> 0 \<le> 1 - v ! nat (y ! i) \<and> 1 - v ! nat (y ! i) \<le> 1
          \<and> (?res ! i = Fin 0 \<longleftrightarrow> v ! nat (y ! i) = 1)"
      using e u i by (simp add: fsub_def)
    then show "\<exists>p. rows m ! i ! nat (y ! i) = Fin p \<and> ?res ! i = Fin (1 - p)
              \<and> 0 \<le> 1 - p \<and> 1 - p \<le> 1 \<and> (?res ! i = Fin 0 \<longleftrightarrow> p = 1)"
      by (rule exI)
  qed
  show ?thesis
    using a r b c d inverse_probability_scenario by blast
qed

theorem inverse_probability_spec_witness:
  "inverse_probability_call
     [FMat \<lparr>ncols = 2, rows = [[Fin (7 / 10), Fin (3 / 10)], [Fin (2 / 10), Fin (8 / 10)]]\<rparr>,
      IArr [0, 1]] 0 1
   = Inr ([FMat \<lparr>ncols = 2, rows = [[Fin (7 / 10), Fin (3 / 10)], [Fin (2 / 10), Fin (8 / 10)]]\<rparr>,
           IArr [0, 1], FArr [Fin (3 / 10), Fin (2 / 10)]], 2)
   \<and> probability_row [Fin (7 / 10), Fin (3 / 10)] \<and> probability_row [Fin (2 / 10), Fin (8 / 10)]"
  using inverse_probability_spec
    [of 0 "[FMat \<lparr>ncols = 2, rows = [[Fin (7 / 10), Fin (3 / 10)], [Fin (2 / 10), Fin (8 / 10)]]\<rparr>,
      IArr [0, 1]]"
        "\<lparr>ncols = 2, rows = [[Fin (7 / 10), Fin (3 / 10)], [Fin (2 / 10), Fin (8 / 10)]]\<rparr>"
        1 "[0, 1]"]
  by (auto simp add: wf_matrix_def labels_ok_def probability_row_def inverse_probability_call_def
        deref_def as_matrix_def as_labels_def bind_def alloc_def)

subsection \<open>Frame properties of the interval functions\<close>

lemma absolute_error_inverse_call_frame:
  assumes "absolute_error_inverse_call h p nc s = Inr (h', r)"
  shows "\<exists>res. h' = h @ [FMat \<lparr>ncols = 2, rows = res\<rparr>] \<and> r = length h \<and> nc < length h"
  using assms
  by (auto simp add: absolute_error_inverse_call_def bind_def alloc_def deref_def
        split: sum.splits if_splits)

lemma signed_error_inverse_call_frame:
  assumes "signed_error_inverse_call h p nc s = Inr (h', r)"
  shows "\<exists>res. h' = h @ [FMat \<lparr>ncols = 2, rows = res\<rparr>] \<and> r = length h \<and> nc < length h"
  using assms
  by (auto simp add: signed_error_inverse_call_def bind_def alloc_def deref_def
        split: sum.splits if_splits)

text \<open>
  Claim C10.  A call of \<open>absolute_error_inverse\<close> or of \<open>signed_error_inverse\<close> that
  returns leaves every array of the store as it was, the calibration pool among them
  (the same values in the same order), and puts its result into a new array; this also
  holds when the prediction and the pool are one and the same array.
\<close>

theorem inverse_functions_keep_pool:
  "(absolute_error_inverse_call h p nc s = Inr (h1, r1) \<longrightarrow>
      r1 = length h \<and> length h1 = Suc (length h) \<and> take (length h) h1 = h
      \<and> nc < length h \<and> h1 ! nc = h ! nc \<and> deref h1 nc = deref h nc)
   \<and> (signed_error_inverse_call h p nc s = Inr (h2, r2) \<longrightarrow>
      r2 = length h \<and> length h2 = Suc (length h) \<and> take (length h) h2 = h
      \<and> nc < length h \<and> h2 ! nc = h ! nc \<and> deref h2 nc = deref h nc)"
proof (intro conjI impI)
  assume a: "absolute_error_inverse_call h p nc s = Inr (h1, r1)"
  from absolute_error_inverse_call_frame [OF a]
  obtain res where f: "h1 = h @ [FMat \<lparr>ncols = 2, rows = res\<rparr>]" "r1 = length h" "nc < length h"
    by blast
  show "r1 = length h" by (rule f(2))
  show "length h1 = Suc (length h)" using f(1) by simp
  show "take (length h) h1 = h" using f(1) by simp
  show "nc < length h" by (rule f(3))
  show "h1 ! nc = h ! nc" using f(1,3) by (simp add: nth_append)
  show "deref h1 nc = deref h nc" using f(1,3) by (simp add: deref_def nth_append)
next
  assume a: "signed_error_inverse_call h p nc s = Inr (h2, r2)"
  from signed_error_inverse_call_frame [OF a]
  obtain res where f: "h2 = h @ [FMat \<lparr>ncols = 2, rows = res\<rparr>]" "r2 = length h" "nc < length h"
    by blast
  show "r2 = length h" by (rule f(2))
  show "length h2 = Suc (length h)" using f(1) by simp
  show "take (length h) h2 = h" using f(1) by simp
  show "nc < length h" by (rule f(3))
  show "h2 ! nc = h ! nc" using f(1,3) by (simp add: nth_append)
  show "deref h2 nc = deref h nc" using f(1,3) by (simp add: deref_def nth_append)
qed

theorem inverse_functions_keep_pool_witness:
  "absolute_error_inverse_call [FArr [Fin 10, Fin 20], FArr [Fin 3, Fin 1, Fin 2]] 0 1 (1 / 2)
     = Inr ([FArr [Fin 10, Fin 20], FArr [Fin 3, Fin 1, Fin 2],
             FMat \<lparr>ncols = 2, rows = [[Fin 8, Fin 12], [Fin 18, Fin 22]]\<rparr>], 2)
   \<and> signed_error_inverse_call [FArr [Fin 10, Fin 20], FArr [Fin 3, Fin 1, Fin 2]] 0 1 (1 / 2)
     = Inr ([FArr [Fin 10, Fin 20], FArr [Fin 3, Fin 1, Fin 2],
             FMat \<lparr>ncols = 2, rows = [[Fin 11, Fin 12], [Fin 21, Fin 22]]\<rparr>], 2)
   \<and> deref [FArr [Fin 10, Fin 20], FArr [Fin 3, Fin 1, Fin 2],
             FMat \<lparr>ncols = 2, rows = [[Fin 8, Fin 12], [Fin 18, Fin 22]]\<rparr>] 1
     = Inr (FArr [Fin 3, Fin 1, Fin 2])"
  using inverse_functions_keep_pool
    [of "[FArr [Fin 10, Fin 20], FArr [Fin 3, Fin 1, Fin 2]]" 0 1 "1 / 2"
        "[FArr [Fin 10, Fin 20], FArr [Fin 3, Fin 1, Fin 2],
             FMat \<lparr>ncols = 2, rows = [[Fin 8, Fin 12], [Fin 18, Fin 22]]\<rparr>]" 2
        "[FArr [Fin 10, Fin 20], FArr [Fin 3, Fin 1, Fin 2],
             FMat \<lparr>ncols = 2, rows = [[Fin 11, Fin 12], [Fin 21, Fin 22]]\<rparr>]" 2]
  by (simp add: absolute_error_inverse_call_def signed_error_inverse_call_def
        absolute_error_inverse_def signed_error_inverse_def np_sort_def getitem_def np_index_def
        deref_def as_floats_def bind_def alloc_def fsub_def)

subsection \<open>The cache of the adapters\<close>

lemma ProbEst_miss:
  assumes "ProbEstClassifierNc_underlying_predict w self x = (w', self', Inr r)"
    and "\<not> ProbEstClassifierNc.clean self \<or> ProbEstClassifierNc.last_x self = None
         \<or> \<not> (case ProbEstClassifierNc.last_x self of None \<Rightarrow> False
                 | Some lx \<Rightarrow> array_equal_at (store w) lx x)"
  shows "\<exists>pv. x < length (store w)
          \<and> predict_proba_method (ProbEstClassifierNc.model_class self)
               (ProbEstClassifierNc.model self) (store w ! x) = Inr pv
          \<and> store w' = store w @ [pv, pv]
          \<and> inferences w' = inferences w @ [store w ! x]
          \<and> self' = self\<lparr>ProbEstClassifierNc.last_x := Some x,
                           ProbEstClassifierNc.last_prediction := Some (length (store w)),
                           ProbEstClassifierNc.clean := True\<rparr>
          \<and> r = Suc (length (store w))"
  using assms
  unfolding ProbEstClassifierNc_underlying_predict_def
  by (auto simp add: Let_def deref_def alloc_def nth_append split: sum.splits if_splits option.splits)

lemma ProbEst_hit:
  assumes "ProbEstClassifierNc_underlying_predict w self x = (w', self', res)"
    and "ProbEstClassifierNc.clean self" "ProbEstClassifierNc.last_x self = Some lx"
    and "array_equal_at (store w) lx x"
  shows "inferences w' = inferences w \<and> self' = self
          \<and> (\<forall>pa. ProbEstClassifierNc.last_prediction self = Some pa \<and> pa < length (store w) \<longrightarrow>
                 store w' = store w @ [store w ! pa] \<and> res = Inr (length (store w)))"
  using assms
  unfolding ProbEstClassifierNc_underlying_predict_def
  by (auto simp add: Let_def deref_def alloc_def split: sum.splits if_splits option.splits)

lemma ProbEst_after_fit:
  assumes "ProbEstClassifierNc_fit w self tx ty = (w', self', Inr u)"
  shows "w' = w \<and> \<not> ProbEstClassifierNc.clean self'"
  using assms
  unfolding ProbEstClassifierNc_fit_def
  by (auto split: sum.splits)

lemma ProbEst_dirty:
  assumes "\<not> ProbEstClassifierNc.clean self" "x < length (store w)"
  shows "inferences (fst (ProbEstClassifierNc_underlying_predict w self x))
           = inferences w @ [store w ! x]"
  using assms
  unfolding ProbEstClassifierNc_underlying_predict_def
  by (auto simp add: Let_def deref_def alloc_def split: sum.splits if_splits option.splits)

lemma Regressor_miss:
  assumes "RegressorNc_underlying_predict w self x = (w', self', Inr r)"
    and "\<not> RegressorNc.clean self \<or> RegressorNc.last_x self = None
         \<or> \<not> (case RegressorNc.last_x self of None \<Rightarrow> False
                 | Some lx \<Rightarrow> array_equal_at (store w) lx x)"
  shows "\<exists>pv. x < length (store w)
          \<and> predict_method (RegressorNc.model_class self)
               (RegressorNc.model self) (store w ! x) = Inr pv
          \<and> store w' = store w @ [pv, pv]
          \<and> inferences w' = inferences w @ [store w ! x]
          \<and> self' = self\<lparr>RegressorNc.last_x := Some x,
                           RegressorNc.last_prediction := Some (length (store w)),
                           RegressorNc.clean := True\<rparr>
          \<and> r = Suc (length (store w))"
  using assms
  unfolding RegressorNc_underlying_predict_def
  by (auto simp add: Let_def deref_def alloc_def nth_append split: sum.splits if_splits option.splits)

lemma Regressor_hit:
  assumes "RegressorNc_underlying_predict w self x = (w', self', res)"
    and "RegressorNc.clean self" "RegressorNc.last_x self = Some lx"
    and "array_equal_at (store w) lx x"
  shows "inferences w' = inferences w \<and> self' = self
          \<and> (\<forall>pa. RegressorNc.last_prediction self = Some pa \<and> pa < length (store w) \<longrightarrow>
                 store w' = store w @ [store w ! pa] \<and> res = Inr (length (store w)))"
  using assms
  unfolding RegressorNc_underlying_predict_def
  by (auto simp add: Let_def deref_def alloc_def split: sum.splits if_splits option.splits)

lemma Regressor_after_fit:
  assumes "RegressorNc_fit w self tx ty = (w', self', Inr u)"
  shows "w' = w \<and> \<not> RegressorNc.clean self'"
  using assms
  unfolding RegressorNc_fit_def
  by (auto split: sum.splits)

lemma Regressor_dirty:
  assumes "\<not> RegressorNc.clean self" "x < length (store w)"
  shows "inferences (fst (RegressorNc_underlying_predict w self x))
           = inferences w @ [store w ! x]"
  using assms
  unfolding RegressorNc_underlying_predict_def
  by (auto simp add: Let_def deref_def alloc_def split: sum.splits if_splits option.splits)


text \<open>
  Claim C1.  For both adapters: when a call of \<open>underlying_predict\<close> that has to
  compute (the adapter is dirty, or has no previous input, or its previous input
  differs) returns, and it is followed at once by a call whose input is equal by value
  (\<^verbatim>\<open>np.array_equal\<close>) to the first, then the two calls together invoke the wrapped
  model's inference exactly once, and the second call returns a copy of the cached
  output, the array the model produced.  When a call of \<open>fit\<close> that returns stands
  between two calls of \<open>underlying_predict\<close> with the same input, the second of them
  invokes inference again.
\<close>

theorem caching_contract:
  "(ProbEstClassifierNc_underlying_predict w c x1 = (w1, c1, Inr r1)
      \<and> (\<not> ProbEstClassifierNc.clean c \<or> ProbEstClassifierNc.last_x c = None
           \<or> \<not> (case ProbEstClassifierNc.last_x c of None \<Rightarrow> False
                   | Some lx \<Rightarrow> array_equal_at (store w) lx x1))
      \<and> array_equal_at (store w1) x1 x2
    \<longrightarrow> (\<exists>w2 r2. ProbEstClassifierNc_underlying_predict w1 c1 x2 = (w2, c1, Inr r2)
           \<and> inferences w1 = inferences w @ [store w ! x1]
           \<and> inferences w2 = inferences w1
           \<and> r2 < length (store w2) \<and> store w2 ! r2 = store w1 ! r1
           \<and> predict_proba_method (ProbEstClassifierNc.model_class c)
                (ProbEstClassifierNc.model c) (store w ! x1) = Inr (store w2 ! r2)))
   \<and> (ProbEstClassifierNc_underlying_predict w c x1 = (w1, c1, Inr r1)
      \<and> ProbEstClassifierNc_fit w1 c1 tx ty = (w3, c3, Inr ())
    \<longrightarrow> w3 = w1
       \<and> inferences (fst (ProbEstClassifierNc_underlying_predict w3 c3 x1))
           = inferences w1 @ [store w1 ! x1])
   \<and> (RegressorNc_underlying_predict v g z1 = (v1, g1, Inr s1)
      \<and> (\<not> RegressorNc.clean g \<or> RegressorNc.last_x g = None
           \<or> \<not> (case RegressorNc.last_x g of None \<Rightarrow> False
                   | Some lx \<Rightarrow> array_equal_at (store v) lx z1))
      \<and> array_equal_at (store v1) z1 z2
    \<longrightarrow> (\<exists>v2 s2. RegressorNc_underlying_predict v1 g1 z2 = (v2, g1, Inr s2)
           \<and> inferences v1 = inferences v @ [store v ! z1]
           \<and> inferences v2 = inferences v1
           \<and> s2 < length (store v2) \<and> store v2 ! s2 = store v1 ! s1
           \<and> predict_method (RegressorNc.model_class g)
                (RegressorNc.model g) (store v ! z1) = Inr (store v2 ! s2)))
   \<and> (RegressorNc_underlying_predict v g z1 = (v1, g1, Inr s1)
      \<and> RegressorNc_fit v1 g1 tz ty' = (v3, g3, Inr ())
    \<longrightarrow> v3 = v1
       \<and> inferences (fst (RegressorNc_underlying_predict v3 g3 z1))
           = inferences v1 @ [store v1 ! z1])"
proof (intro conjI impI)
  assume a: "ProbEstClassifierNc_underlying_predict w c x1 = (w1, c1, Inr r1)
      \<and> (\<not> ProbEstClassifierNc.clean c \<or> ProbEstClassifierNc.last_x c = None
           \<or> \<not> (case ProbEstClassifierNc.last_x c of None \<Rightarrow> False
                   | Some lx \<Rightarrow> array_equal_at (store w) lx x1))
      \<and> array_equal_at (store w1) x1 x2"
  from ProbEst_miss [of w c x1 w1 c1 r1] a
  obtain pv where m: "x1 < length (store w)"
      "predict_proba_method (ProbEstClassifierNc.model_class c)
         (ProbEstClassifierNc.model c) (store w ! x1) = Inr pv"
      "store w1 = store w @ [pv, pv]"
      "inferences w1 = inferences w @ [store w ! x1]"
      "c1 = c\<lparr>ProbEstClassifierNc.last_x := Some x1,
              ProbEstClassifierNc.last_prediction := Some (length (store w)),
              ProbEstClassifierNc.clean := True\<rparr>"
      "r1 = Suc (length (store w))"
    by blast
  obtain w2 c2 res where e: "ProbEstClassifierNc_underlying_predict w1 c1 x2 = (w2, c2, res)"
    by (rule prod_cases3)
  have h: "inferences w2 = inferences w1 \<and> c2 = c1
          \<and> (\<forall>pa. ProbEstClassifierNc.last_prediction c1 = Some pa \<and> pa < length (store w1) \<longrightarrow>
                 store w2 = store w1 @ [store w1 ! pa] \<and> res = Inr (length (store w1)))"
    using a m(5) by (intro ProbEst_hit [OF e, of x1]) simp_all
  have lp: "ProbEstClassifierNc.last_prediction c1 = Some (length (store w))
            \<and> length (store w) < length (store w1)"
    using m(3,5) by simp
  from h lp have s2: "store w2 = store w1 @ [store w1 ! length (store w)]"
    and r2: "res = Inr (length (store w1))" by blast+
  have "ProbEstClassifierNc_underlying_predict w1 c1 x2 = (w2, c1, Inr (length (store w1)))
           \<and> inferences w1 = inferences w @ [store w ! x1]
           \<and> inferences w2 = inferences w1
           \<and> length (store w1) < length (store w2)
           \<and> store w2 ! length (store w1) = store w1 ! r1
           \<and> predict_proba_method (ProbEstClassifierNc.model_class c)
                (ProbEstClassifierNc.model c) (store w ! x1) = Inr (store w2 ! length (store w1))"
    using e h r2 s2 m by (simp add: nth_append)
  then show "\<exists>w2 r2. ProbEstClassifierNc_underlying_predict w1 c1 x2 = (w2, c1, Inr r2)
           \<and> inferences w1 = inferences w @ [store w ! x1]
           \<and> inferences w2 = inferences w1
           \<and> r2 < length (store w2) \<and> store w2 ! r2 = store w1 ! r1
           \<and> predict_proba_method (ProbEstClassifierNc.model_class c)
                (ProbEstClassifierNc.model c) (store w ! x1) = Inr (store w2 ! r2)"
    by blast
next
  assume a: "ProbEstClassifierNc_underlying_predict w c x1 = (w1, c1, Inr r1)
      \<and> ProbEstClassifierNc_fit w1 c1 tx ty = (w3, c3, Inr ())"
  have f: "w3 = w1 \<and> \<not> ProbEstClassifierNc.clean c3"
    using a ProbEst_after_fit by blast
  then show "w3 = w1" by simp
  have "x1 < length (store w1)"
    using a unfolding ProbEstClassifierNc_underlying_predict_def
    by (auto simp add: Let_def deref_def alloc_def array_equal_at_def
          split: sum.splits if_splits option.splits)
  then show "inferences (fst (ProbEstClassifierNc_underlying_predict w3 c3 x1))
           = inferences w1 @ [store w1 ! x1]"
    using f ProbEst_dirty [of c3 x1 w1] by simp
next
  assume a: "RegressorNc_underlying_predict v g z1 = (v1, g1, Inr s1)
      \<and> (\<not> RegressorNc.clean g \<or> RegressorNc.last_x g = None
           \<or> \<not> (case RegressorNc.last_x g of None \<Rightarrow> False
                   | Some lx \<Rightarrow> array_equal_at (store v) lx z1))
      \<and> array_equal_at (store v1) z1 z2"
  from Regressor_miss [of v g z1 v1 g1 s1] a
  obtain pv where m: "z1 < length (store v)"
      "predict_method (RegressorNc.model_class g) (RegressorNc.model g) (store v ! z1) = Inr pv"
      "store v1 = store v @ [pv, pv]"
      "inferences v1 = inferences v @ [store v ! z1]"
      "g1 = g\<lparr>RegressorNc.last_x := Some z1,
              RegressorNc.last_prediction := Some (length (store v)),
              RegressorNc.clean := True\<rparr>"
      "s1 = Suc (length (store v))"
    by blast
  obtain v2 g2 res where e: "RegressorNc_underlying_predict v1 g1 z2 = (v2, g2, res)"
    by (rule prod_cases3)
  have h: "inferences v2 = inferences v1 \<and> g2 = g1
          \<and> (\<forall>pa. RegressorNc.last_prediction g1 = Some pa \<and> pa < length (store v1) \<longrightarrow>
                 store v2 = store v1 @ [store v1 ! pa] \<and> res = Inr (length (store v1)))"
    using a m(5) by (intro Regressor_hit [OF e, of z1]) simp_all
  have lp: "RegressorNc.last_prediction g1 = Some (length (store v))
            \<and> length (store v) < length (store v1)"
    using m(3,5) by simp
  from h lp have s2: "store v2 = store v1 @ [store v1 ! length (store v)]"
    and r2: "res = Inr (length (store v1))" by blast+
  have "RegressorNc_underlying_predict v1 g1 z2 = (v2, g1, Inr (length (store v1)))
           \<and> inferences v1 = inferences v @ [store v ! z1]
           \<and> inferences v2 = inferences v1
           \<and> length (store v1) < length (store v2)
           \<and> store v2 ! length (store v1) = store v1 ! s1
           \<and> predict_method (RegressorNc.model_class g)
                (RegressorNc.model g) (store v ! z1) = Inr (store v2 ! length (store v1))"
    using e h r2 s2 m by (simp add: nth_append)
  then show "\<exists>v2 s2. RegressorNc_underlying_predict v1 g1 z2 = (v2, g1, Inr s2)
           \<and> inferences v1 = inferences v @ [store v ! z1]
           \<and> inferences v2 = inferences v1
           \<and> s2 < length (store v2) \<and> store v2 ! s2 = store v1 ! s1
           \<and> predict_method (RegressorNc.model_class g)
                (RegressorNc.model g) (store v ! z1) = Inr (store v2 ! s2)"
    by blast
next
  assume a: "RegressorNc_underlying_predict v g z1 = (v1, g1, Inr s1)
      \<and> RegressorNc_fit v1 g1 tz ty' = (v3, g3, Inr ())"
  have f: "v3 = v1 \<and> \<not> RegressorNc.clean g3"
    using a Regressor_after_fit by blast
  then show "v3 = v1" by simp
  have "z1 < length (store v1)"
    using a unfolding RegressorNc_underlying_predict_def
    by (auto simp add: Let_def deref_def alloc_def array_equal_at_def
          split: sum.splits if_splits option.splits)
  then show "inferences (fst (RegressorNc_underlying_predict v3 g3 z1))
           = inferences v1 @ [store v1 ! z1]"
    using f Regressor_dirty [of g3 z1 v1] by simp
qed


theorem caching_contract_witness:
  "ProbEstClassifierNc_underlying_predict
     (\<lparr>store = [FArr [Fin 1], IArr [0]], inferences = []\<rparr>)
     (ProbEstClassifierNc_init demo_class margin_call None) 0
   = (\<lparr>store = [FArr [Fin 1], IArr [0], FMat \<lparr>ncols = 2, rows = [[Fin (1 / 5), Fin (4 / 5)]]\<rparr>, FMat \<lparr>ncols = 2, rows = [[Fin (1 / 5), Fin (4 / 5)]]\<rparr>], inferences = [FArr [Fin 1]]\<rparr>,
      (ProbEstClassifierNc_init demo_class margin_call None)\<lparr>ProbEstClassifierNc.last_x := Some 0, ProbEstClassifierNc.last_prediction := Some 2, ProbEstClassifierNc.clean := True\<rparr>, Inr 3)
   \<and> inferences (fst (ProbEstClassifierNc_underlying_predict
        (\<lparr>store = [FArr [Fin 1], IArr [0], FMat \<lparr>ncols = 2, rows = [[Fin (1 / 5), Fin (4 / 5)]]\<rparr>, FMat \<lparr>ncols = 2, rows = [[Fin (1 / 5), Fin (4 / 5)]]\<rparr>], inferences = [FArr [Fin 1]]\<rparr>)
        ((ProbEstClassifierNc_init demo_class margin_call None)\<lparr>ProbEstClassifierNc.last_x := Some 0, ProbEstClassifierNc.last_prediction := Some 2, ProbEstClassifierNc.clean := True\<rparr>) 0))
     = [FArr [Fin 1]]
   \<and> inferences (fst (ProbEstClassifierNc_underlying_predict
        (\<lparr>store = [FArr [Fin 1], IArr [0], FMat \<lparr>ncols = 2, rows = [[Fin (1 / 5), Fin (4 / 5)]]\<rparr>, FMat \<lparr>ncols = 2, rows = [[Fin (1 / 5), Fin (4 / 5)]]\<rparr>], inferences = [FArr [Fin 1]]\<rparr>)
        ((ProbEstClassifierNc_init demo_class margin_call None)\<lparr>ProbEstClassifierNc.last_x := Some 0, ProbEstClassifierNc.last_prediction := Some 2, ProbEstClassifierNc.model := Suc 0, ProbEstClassifierNc.clean := False\<rparr>) 0))
     = [FArr [Fin 1], FArr [Fin 1]]
   \<and> RegressorNc_underlying_predict
     (\<lparr>store = [FArr [Fin 1], IArr [0]], inferences = []\<rparr>)
     (RegressorNc_init demo_class absolute_error_call absolute_error_inverse_call None) 0
   = (\<lparr>store = [FArr [Fin 1], IArr [0], FArr [Fin 0], FArr [Fin 0]], inferences = [FArr [Fin 1]]\<rparr>,
      (RegressorNc_init demo_class absolute_error_call absolute_error_inverse_call None)\<lparr>RegressorNc.last_x := Some 0, RegressorNc.last_prediction := Some 2, RegressorNc.clean := True\<rparr>, Inr 3)
   \<and> inferences (fst (RegressorNc_underlying_predict
        (\<lparr>store = [FArr [Fin 1], IArr [0], FArr [Fin 0], FArr [Fin 0]], inferences = [FArr [Fin 1]]\<rparr>)
        ((RegressorNc_init demo_class absolute_error_call absolute_error_inverse_call None)\<lparr>RegressorNc.last_x := Some 0, RegressorNc.last_prediction := Some 2, RegressorNc.clean := True\<rparr>) 0))
     = [FArr [Fin 1]]
   \<and> inferences (fst (RegressorNc_underlying_predict
        (\<lparr>store = [FArr [Fin 1], IArr [0], FArr [Fin 0], FArr [Fin 0]], inferences = [FArr [Fin 1]]\<rparr>)
        ((RegressorNc_init demo_class absolute_error_call absolute_error_inverse_call None)\<lparr>RegressorNc.last_x := Some 0, RegressorNc.last_prediction := Some 2, RegressorNc.model := Suc 0, RegressorNc.clean := False\<rparr>) 0))
     = [FArr [Fin 1], FArr [Fin 1]]"
  using caching_contract
    [where w = "\<lparr>store = [FArr [Fin 1], IArr [0]], inferences = []\<rparr>"
       and c = "ProbEstClassifierNc_init demo_class margin_call None"
       and ?x1.0 = 0 and ?x2.0 = 0 and ?r1.0 = 3
       and ?w1.0 = "\<lparr>store = [FArr [Fin 1], IArr [0], FMat \<lparr>ncols = 2, rows = [[Fin (1 / 5), Fin (4 / 5)]]\<rparr>, FMat \<lparr>ncols = 2, rows = [[Fin (1 / 5), Fin (4 / 5)]]\<rparr>], inferences = [FArr [Fin 1]]\<rparr>"
       and ?c1.0 = "(ProbEstClassifierNc_init demo_class margin_call None)\<lparr>ProbEstClassifierNc.last_x := Some 0, ProbEstClassifierNc.last_prediction := Some 2, ProbEstClassifierNc.clean := True\<rparr>"
       and tx = 0 and ty = 1
       and ?w3.0 = "\<lparr>store = [FArr [Fin 1], IArr [0], FMat \<lparr>ncols = 2, rows = [[Fin (1 / 5), Fin (4 / 5)]]\<rparr>, FMat \<lparr>ncols = 2, rows = [[Fin (1 / 5), Fin (4 / 5)]]\<rparr>], inferences = [FArr [Fin 1]]\<rparr>"
       and ?c3.0 = "(ProbEstClassifierNc_init demo_class margin_call None)\<lparr>ProbEstClassifierNc.last_x := Some 0, ProbEstClassifierNc.last_prediction := Some 2, ProbEstClassifierNc.model := Suc 0, ProbEstClassifierNc.clean := False\<rparr>"
       and v = "\<lparr>store = [FArr [Fin 1], IArr [0]], inferences = []\<rparr>"
       and g = "RegressorNc_init demo_class absolute_error_call absolute_error_inverse_call None"
       and ?z1.0 = 0 and ?z2.0 = 0 and ?s1.0 = 3
       and ?v1.0 = "\<lparr>store = [FArr [Fin 1], IArr [0], FArr [Fin 0], FArr [Fin 0]], inferences = [FArr [Fin 1]]\<rparr>"
       and ?g1.0 = "(RegressorNc_init demo_class absolute_error_call absolute_error_inverse_call None)\<lparr>RegressorNc.last_x := Some 0, RegressorNc.last_prediction := Some 2, RegressorNc.clean := True\<rparr>"
       and tz = 0 and ty' = 1
       and ?v3.0 = "\<lparr>store = [FArr [Fin 1], IArr [0], FArr [Fin 0], FArr [Fin 0]], inferences = [FArr [Fin 1]]\<rparr>"
       and ?g3.0 = "(RegressorNc_init demo_class absolute_error_call absolute_error_inverse_call None)\<lparr>RegressorNc.last_x := Some 0, RegressorNc.last_prediction := Some 2, RegressorNc.model := Suc 0, RegressorNc.clean := False\<rparr>"]
  by (simp add: ProbEstClassifierNc_underlying_predict_def ProbEstClassifierNc_fit_def
        ProbEstClassifierNc_init_def RegressorNc_underlying_predict_def RegressorNc_fit_def
        RegressorNc_init_def demo_class_def array_equal_at_def deref_def alloc_def Let_def)

subsection \<open>The copy handed out by the adapters\<close>

lemma ProbEst_returns_copy:
  assumes "ProbEstClassifierNc_underlying_predict w c x = (w1, c1, Inr r)"
  shows "\<exists>pa. ProbEstClassifierNc.last_prediction c1 = Some pa \<and> pa < r
          \<and> length (store w) \<le> r \<and> length (store w1) = Suc r
          \<and> store w1 ! r = store w1 ! pa
          \<and> ProbEstClassifierNc.err_func c1 = ProbEstClassifierNc.err_func c"
  using assms
  unfolding ProbEstClassifierNc_underlying_predict_def
  by (auto simp add: Let_def deref_def alloc_def nth_append
        split: sum.splits if_splits option.splits)

lemma ProbEst_calc_nc_unfold:
  assumes "ProbEstClassifierNc_underlying_predict w c x = (w1, c1, Inr r)"
    and "ProbEstClassifierNc_calc_nc w c x y = (w2, c2, Inr s)"
  shows "c2 = c1 \<and> (\<exists>h. ProbEstClassifierNc.err_func c1 (store w1) r y = Inr (h, s)
                        \<and> store w2 = h)"
  using assms
  unfolding ProbEstClassifierNc_calc_nc_def
  by (auto split: sum.splits)

lemma Regressor_returns_copy:
  assumes "RegressorNc_underlying_predict w c x = (w1, c1, Inr r)"
  shows "\<exists>pa. RegressorNc.last_prediction c1 = Some pa \<and> pa < r
          \<and> length (store w) \<le> r \<and> length (store w1) = Suc r
          \<and> store w1 ! r = store w1 ! pa
          \<and> RegressorNc.err_func c1 = RegressorNc.err_func c"
  using assms
  unfolding RegressorNc_underlying_predict_def
  by (auto simp add: Let_def deref_def alloc_def nth_append
        split: sum.splits if_splits option.splits)

lemma Regressor_calc_nc_unfold:
  assumes "RegressorNc_underlying_predict w c x = (w1, c1, Inr r)"
    and "RegressorNc_calc_nc w c x y = (w2, c2, Inr s)"
  shows "c2 = c1 \<and> (\<exists>h. RegressorNc.err_func c1 (store w1) r y = Inr (h, s)
                        \<and> store w2 = h)"
  using assms
  unfolding RegressorNc_calc_nc_def
  by (auto split: sum.splits)

lemma margin_call_frame:
  assumes "margin_call h p l = Inr (h', a)"
  shows "length h \<le> length h' \<and> (\<forall>b<length h. b \<noteq> p \<longrightarrow> h' ! b = h ! b)"
  using assms
  by (auto simp add: margin_call_def bind_def alloc_def nth_append split: sum.splits)

lemma absolute_error_call_frame:
  assumes "absolute_error_call h p l = Inr (h', a)"
  shows "length h \<le> length h' \<and> (\<forall>b<length h. b \<noteq> p \<longrightarrow> h' ! b = h ! b)"
  using assms
  by (auto simp add: absolute_error_call_def bind_def alloc_def nth_append split: sum.splits)

text \<open>
  Claim C7.  For both adapters: a call of \<open>underlying_predict\<close> that returns hands out
  a new array, one that did not exist before the call and is not the cached
  prediction, holding the same values as the cached prediction; so whatever is written
  into the returned array leaves the cached prediction as it is.  And when \<open>calc_nc\<close>
  runs a score function that, like \<open>margin\<close>, writes to no existing array other than
  the prediction it is handed, the cached prediction after \<open>calc_nc\<close> holds the values
  it held when \<open>underlying_predict\<close> returned.
\<close>

theorem defensive_copy:
  "(ProbEstClassifierNc_underlying_predict w c x = (w1, c1, Inr xr)
    \<longrightarrow> (\<exists>pa. ProbEstClassifierNc.last_prediction c1 = Some pa
           \<and> pa < length (store w1) \<and> xr < length (store w1)
           \<and> length (store w) \<le> xr \<and> xr \<noteq> pa
           \<and> store w1 ! xr = store w1 ! pa
           \<and> (\<forall>a. (store w1)[xr := a] ! pa = store w1 ! pa)))
   \<and> (ProbEstClassifierNc_underlying_predict w c x = (w1, c1, Inr xr)
      \<and> ProbEstClassifierNc_calc_nc w c x y = (w2, c2, Inr xs)
      \<and> ProbEstClassifierNc.err_func c = f
      \<and> (\<forall>h p l h' a. f h p l = Inr (h', a) \<longrightarrow>
             length h \<le> length h' \<and> (\<forall>b<length h. b \<noteq> p \<longrightarrow> h' ! b = h ! b))
    \<longrightarrow> c2 = c1
       \<and> (\<exists>pa. ProbEstClassifierNc.last_prediction c2 = Some pa
             \<and> deref (store w2) pa = deref (store w1) pa))
   \<and> (RegressorNc_underlying_predict v g z = (v1, g1, Inr zr)
    \<longrightarrow> (\<exists>pa. RegressorNc.last_prediction g1 = Some pa
           \<and> pa < length (store v1) \<and> zr < length (store v1)
           \<and> length (store v) \<le> zr \<and> zr \<noteq> pa
           \<and> store v1 ! zr = store v1 ! pa
           \<and> (\<forall>a. (store v1)[zr := a] ! pa = store v1 ! pa)))
   \<and> (RegressorNc_underlying_predict v g z = (v1, g1, Inr zr)
      \<and> RegressorNc_calc_nc v g z t = (v2, g2, Inr zs)
      \<and> RegressorNc.err_func g = k
      \<and> (\<forall>h p l h' a. k h p l = Inr (h', a) \<longrightarrow>
             length h \<le> length h' \<and> (\<forall>b<length h. b \<noteq> p \<longrightarrow> h' ! b = h ! b))
    \<longrightarrow> g2 = g1
       \<and> (\<exists>pa. RegressorNc.last_prediction g2 = Some pa
             \<and> deref (store v2) pa = deref (store v1) pa))"
proof (intro conjI impI)
  assume a: "ProbEstClassifierNc_underlying_predict w c x = (w1, c1, Inr xr)"
  from ProbEst_returns_copy [OF a]
  obtain pa where p: "ProbEstClassifierNc.last_prediction c1 = Some pa" "pa < xr"
      "length (store w) \<le> xr" "length (store w1) = Suc xr"
      "store w1 ! xr = store w1 ! pa"
    by blast
  have "ProbEstClassifierNc.last_prediction c1 = Some pa
           \<and> pa < length (store w1) \<and> xr < length (store w1)
           \<and> length (store w) \<le> xr \<and> xr \<noteq> pa
           \<and> store w1 ! xr = store w1 ! pa
           \<and> (\<forall>a. (store w1)[xr := a] ! pa = store w1 ! pa)"
    using p by simp
  then show "\<exists>pa. ProbEstClassifierNc.last_prediction c1 = Some pa
           \<and> pa < length (store w1) \<and> xr < length (store w1)
           \<and> length (store w) \<le> xr \<and> xr \<noteq> pa
           \<and> store w1 ! xr = store w1 ! pa
           \<and> (\<forall>a. (store w1)[xr := a] ! pa = store w1 ! pa)"
    by (rule exI)
next
  assume b: "ProbEstClassifierNc_underlying_predict w c x = (w1, c1, Inr xr)
      \<and> ProbEstClassifierNc_calc_nc w c x y = (w2, c2, Inr xs)
      \<and> ProbEstClassifierNc.err_func c = f
      \<and> (\<forall>h p l h' a. f h p l = Inr (h', a) \<longrightarrow>
             length h \<le> length h' \<and> (\<forall>b<length h. b \<noteq> p \<longrightarrow> h' ! b = h ! b))"
  then have a: "ProbEstClassifierNc_underlying_predict w c x = (w1, c1, Inr xr)"
    and n: "ProbEstClassifierNc_calc_nc w c x y = (w2, c2, Inr xs)"
    and e: "ProbEstClassifierNc.err_func c = f"
    and fr: "\<And>h p l h' a. f h p l = Inr (h', a) \<Longrightarrow>
             length h \<le> length h' \<and> (\<forall>b<length h. b \<noteq> p \<longrightarrow> h' ! b = h ! b)"
    by blast+
  from ProbEst_returns_copy [OF a]
  obtain pa where p: "ProbEstClassifierNc.last_prediction c1 = Some pa" "pa < xr"
      "length (store w1) = Suc xr"
      "ProbEstClassifierNc.err_func c1 = ProbEstClassifierNc.err_func c"
    by blast
  from ProbEst_calc_nc_unfold [OF a n]
  have c2: "c2 = c1"
    and ef: "ProbEstClassifierNc.err_func c1 (store w1) xr y = Inr (store w2, xs)"
    by auto
  have "f (store w1) xr y = Inr (store w2, xs)"
    using ef p(4) e by simp
  from fr [OF this] have g: "length (store w1) \<le> length (store w2)"
    and k: "\<forall>b<length (store w1). b \<noteq> xr \<longrightarrow> store w2 ! b = store w1 ! b"
    by blast+
  have "store w2 ! pa = store w1 ! pa" using k p(2,3) by simp
  then have d: "deref (store w2) pa = deref (store w1) pa"
    using g p(2,3) by (simp add: deref_def)
  show "c2 = c1" by (rule c2)
  have "ProbEstClassifierNc.last_prediction c2 = Some pa
             \<and> deref (store w2) pa = deref (store w1) pa"
    using p(1) c2 d by simp
  then show "\<exists>pa. ProbEstClassifierNc.last_prediction c2 = Some pa
             \<and> deref (store w2) pa = deref (store w1) pa"
    by (rule exI)
next
  assume a: "RegressorNc_underlying_predict v g z = (v1, g1, Inr zr)"
  from Regressor_returns_copy [OF a]
  obtain pa where p: "RegressorNc.last_prediction g1 = Some pa" "pa < zr"
      "length (store v) \<le> zr" "length (store v1) = Suc zr"
      "store v1 ! zr = store v1 ! pa"
    by blast
  have "RegressorNc.last_prediction g1 = Some pa
           \<and> pa < length (store v1) \<and> zr < length (store v1)
           \<and> length (store v) \<le> zr \<and> zr \<noteq> pa
           \<and> store v1 ! zr = store v1 ! pa
           \<and> (\<forall>a. (store v1)[zr := a] ! pa = store v1 ! pa)"
    using p by simp
  then show "\<exists>pa. RegressorNc.last_prediction g1 = Some pa
           \<and> pa < length (store v1) \<and> zr < length (store v1)
           \<and> length (store v) \<le> zr \<and> zr \<noteq> pa
           \<and> store v1 ! zr = store v1 ! pa
           \<and> (\<forall>a. (store v1)[zr := a] ! pa = store v1 ! pa)"
    by (rule exI)
next
  assume b: "RegressorNc_underlying_predict v g z = (v1, g1, Inr zr)
      \<and> RegressorNc_calc_nc v g z t = (v2, g2, Inr zs)
      \<and> RegressorNc.err_func g = k
      \<and> (\<forall>h p l h' a. k h p l = Inr (h', a) \<longrightarrow>
             length h \<le> length h' \<and> (\<forall>b<length h. b \<noteq> p \<longrightarrow> h' ! b = h ! b))"
  then have a: "RegressorNc_underlying_predict v g z = (v1, g1, Inr zr)"
    and n: "RegressorNc_calc_nc v g z t = (v2, g2, Inr zs)"
    and e: "RegressorNc.err_func g = k"
    and fr: "\<And>h p l h' a. k h p l = Inr (h', a) \<Longrightarrow>
             length h \<le> length h' \<and> (\<forall>b<length h. b \<noteq> p \<longrightarrow> h' ! b = h ! b)"
    by blast+
  from Regressor_returns_copy [OF a]
  obtain pa where p: "RegressorNc.last_prediction g1 = Some pa" "pa < zr"
      "length (store v1) = Suc zr"
      "RegressorNc.err_func g1 = RegressorNc.err_func g"
    by blast
  from Regressor_calc_nc_unfold [OF a n]
  have c2: "g2 = g1"
    and ef: "RegressorNc.err_func g1 (store v1) zr t = Inr (store v2, zs)"
    by auto
  have "k (store v1) zr t = Inr (store v2, zs)"
    using ef p(4) e by simp
  from fr [OF this] have g: "length (store v1) \<le> length (store v2)"
    and k: "\<forall>b<length (store v1). b \<noteq> zr \<longrightarrow> store v2 ! b = store v1 ! b"
    by blast+
  have "store v2 ! pa = store v1 ! pa" using k p(2,3) by simp
  then have d: "deref (store v2) pa = deref (store v1) pa"
    using g p(2,3) by (simp add: deref_def)
  show "g2 = g1" by (rule c2)
  have "RegressorNc.last_prediction g2 = Some pa
             \<and> deref (store v2) pa = deref (store v1) pa"
    using p(1) c2 d by simp
  then show "\<exists>pa. RegressorNc.last_prediction g2 = Some pa
             \<and> deref (store v2) pa = deref (store v1) pa"
    by (rule exI)
qed


theorem defensive_copy_witness:
  "ProbEstClassifierNc_underlying_predict
     (\<lparr>store = [FArr [Fin 1], IArr [0]], inferences = []\<rparr>)
     (ProbEstClassifierNc_init demo_class margin_call None) 0
   = (\<lparr>store = [FArr [Fin 1], IArr [0], FMat \<lparr>ncols = 2, rows = [[Fin (1 / 5), Fin (4 / 5)]]\<rparr>, FMat \<lparr>ncols = 2, rows = [[Fin (1 / 5), Fin (4 / 5)]]\<rparr>], inferences = [FArr [Fin 1]]\<rparr>,
      (ProbEstClassifierNc_init demo_class margin_call None)\<lparr>ProbEstClassifierNc.last_x := Some 0, ProbEstClassifierNc.last_prediction := Some 2, ProbEstClassifierNc.clean := True\<rparr>, Inr 3)
   \<and> ProbEstClassifierNc_calc_nc
     (\<lparr>store = [FArr [Fin 1], IArr [0]], inferences = []\<rparr>)
     (ProbEstClassifierNc_init demo_class margin_call None) 0 1
   = (\<lparr>store = [FArr [Fin 1], IArr [0], FMat \<lparr>ncols = 2, rows = [[Fin (1 / 5), Fin (4 / 5)]]\<rparr>, FMat \<lparr>ncols = 2, rows = [[NInf, Fin (4 / 5)]]\<rparr>, FArr [Fin (4 / 5)]], inferences = [FArr [Fin 1]]\<rparr>,
      (ProbEstClassifierNc_init demo_class margin_call None)\<lparr>ProbEstClassifierNc.last_x := Some 0, ProbEstClassifierNc.last_prediction := Some 2, ProbEstClassifierNc.clean := True\<rparr>, Inr 4)
   \<and> RegressorNc_underlying_predict
     (\<lparr>store = [FArr [Fin 1], IArr [0]], inferences = []\<rparr>)
     (RegressorNc_init demo_class absolute_error_call absolute_error_inverse_call None) 0
   = (\<lparr>store = [FArr [Fin 1], IArr [0], FArr [Fin 0], FArr [Fin 0]], inferences = [FArr [Fin 1]]\<rparr>,
      (RegressorNc_init demo_class absolute_error_call absolute_error_inverse_call None)\<lparr>RegressorNc.last_x := Some 0, RegressorNc.last_prediction := Some 2, RegressorNc.clean := True\<rparr>, Inr 3)
   \<and> RegressorNc_calc_nc
     (\<lparr>store = [FArr [Fin 1], IArr [0]], inferences = []\<rparr>)
     (RegressorNc_init demo_class absolute_error_call absolute_error_inverse_call None) 0 0
   = (\<lparr>store = [FArr [Fin 1], IArr [0], FArr [Fin 0], FArr [Fin 0], FArr [Fin 1]], inferences = [FArr [Fin 1]]\<rparr>,
      (RegressorNc_init demo_class absolute_error_call absolute_error_inverse_call None)\<lparr>RegressorNc.last_x := Some 0, RegressorNc.last_prediction := Some 2, RegressorNc.clean := True\<rparr>, Inr 4)"
proof -
  have e1: "ProbEstClassifierNc_underlying_predict
     (\<lparr>store = [FArr [Fin 1], IArr [0]], inferences = []\<rparr>)
     (ProbEstClassifierNc_init demo_class margin_call None) 0
   = (\<lparr>store = [FArr [Fin 1], IArr [0], FMat \<lparr>ncols = 2, rows = [[Fin (1 / 5), Fin (4 / 5)]]\<rparr>, FMat \<lparr>ncols = 2, rows = [[Fin (1 / 5), Fin (4 / 5)]]\<rparr>], inferences = [FArr [Fin 1]]\<rparr>,
      (ProbEstClassifierNc_init demo_class margin_call None)\<lparr>ProbEstClassifierNc.last_x := Some 0, ProbEstClassifierNc.last_prediction := Some 2, ProbEstClassifierNc.clean := True\<rparr>, Inr 3)"
    by (simp add: ProbEstClassifierNc_underlying_predict_def ProbEstClassifierNc_calc_nc_def
        ProbEstClassifierNc_init_def RegressorNc_underlying_predict_def RegressorNc_calc_nc_def
        RegressorNc_init_def demo_class_def array_equal_at_def deref_def alloc_def Let_def
        margin_call_def margin_def margin_step_def getitem2_def setitem2_def np_index_def
        max_axis1_def broadcast2_def fsub_def as_matrix_def as_labels_def as_floats_def
        absolute_error_call_def absolute_error_def bind_def)
  have e2: "ProbEstClassifierNc_calc_nc
     (\<lparr>store = [FArr [Fin 1], IArr [0]], inferences = []\<rparr>)
     (ProbEstClassifierNc_init demo_class margin_call None) 0 1
   = (\<lparr>store = [FArr [Fin 1], IArr [0], FMat \<lparr>ncols = 2, rows = [[Fin (1 / 5), Fin (4 / 5)]]\<rparr>, FMat \<lparr>ncols = 2, rows = [[NInf, Fin (4 / 5)]]\<rparr>, FArr [Fin (4 / 5)]], inferences = [FArr [Fin 1]]\<rparr>,
      (ProbEstClassifierNc_init demo_class margin_call None)\<lparr>ProbEstClassifierNc.last_x := Some 0, ProbEstClassifierNc.last_prediction := Some 2, ProbEstClassifierNc.clean := True\<rparr>, Inr 4)"
    by (simp add: ProbEstClassifierNc_underlying_predict_def ProbEstClassifierNc_calc_nc_def
        ProbEstClassifierNc_init_def RegressorNc_underlying_predict_def RegressorNc_calc_nc_def
        RegressorNc_init_def demo_class_def array_equal_at_def deref_def alloc_def Let_def
        margin_call_def margin_def margin_step_def getitem2_def setitem2_def np_index_def
        max_axis1_def broadcast2_def fsub_def as_matrix_def as_labels_def as_floats_def
        absolute_error_call_def absolute_error_def bind_def)
  have e3: "RegressorNc_underlying_predict
     (\<lparr>store = [FArr [Fin 1], IArr [0]], inferences = []\<rparr>)
     (RegressorNc_init demo_class absolute_error_call absolute_error_inverse_call None) 0
   = (\<lparr>store = [FArr [Fin 1], IArr [0], FArr [Fin 0], FArr [Fin 0]], inferences = [FArr [Fin 1]]\<rparr>,
      (RegressorNc_init demo_class absolute_error_call absolute_error_inverse_call None)\<lparr>RegressorNc.last_x := Some 0, RegressorNc.last_prediction := Some 2, RegressorNc.clean := True\<rparr>, Inr 3)"
    by (simp add: ProbEstClassifierNc_underlying_predict_def ProbEstClassifierNc_calc_nc_def
        ProbEstClassifierNc_init_def RegressorNc_underlying_predict_def RegressorNc_calc_nc_def
        RegressorNc_init_def demo_class_def array_equal_at_def deref_def alloc_def Let_def
        margin_call_def margin_def margin_step_def getitem2_def setitem2_def np_index_def
        max_axis1_def broadcast2_def fsub_def as_matrix_def as_labels_def as_floats_def
        absolute_error_call_def absolute_error_def bind_def)
  have e4: "RegressorNc_calc_nc
     (\<lparr>store = [FArr [Fin 1], IArr [0]], inferences = []\<rparr>)
     (RegressorNc_init demo_class absolute_error_call absolute_error_inverse_call None) 0 0
   = (\<lparr>store = [FArr [Fin 1], IArr [0], FArr [Fin 0], FArr [Fin 0], FArr [Fin 1]], inferences = [FArr [Fin 1]]\<rparr>,
      (RegressorNc_init demo_class absolute_error_call absolute_error_inverse_call None)\<lparr>RegressorNc.last_x := Some 0, RegressorNc.last_prediction := Some 2, RegressorNc.clean := True\<rparr>, Inr 4)"
    by (simp add: ProbEstClassifierNc_underlying_predict_def ProbEstClassifierNc_calc_nc_def
        ProbEstClassifierNc_init_def RegressorNc_underlying_predict_def RegressorNc_calc_nc_def
        RegressorNc_init_def demo_class_def array_equal_at_def deref_def alloc_def Let_def
        margin_call_def margin_def margin_step_def getitem2_def setitem2_def np_index_def
        max_axis1_def broadcast2_def fsub_def as_matrix_def as_labels_def as_floats_def
        absolute_error_call_def absolute_error_def bind_def)
  show ?thesis
    using defensive_copy
    [where w = "\<lparr>store = [FArr [Fin 1], IArr [0]], inferences = []\<rparr>"
       and c = "ProbEstClassifierNc_init demo_class margin_call None"
       and x = 0 and y = 1 and xr = 3 and xs = 4 and f = margin_call
       and ?w1.0 = "\<lparr>store = [FArr [Fin 1], IArr [0], FMat \<lparr>ncols = 2, rows = [[Fin (1 / 5), Fin (4 / 5)]]\<rparr>, FMat \<lparr>ncols = 2, rows = [[Fin (1 / 5), Fin (4 / 5)]]\<rparr>], inferences = [FArr [Fin 1]]\<rparr>"
       and ?c1.0 = "(ProbEstClassifierNc_init demo_class margin_call None)\<lparr>ProbEstClassifierNc.last_x := Some 0, ProbEstClassifierNc.last_prediction := Some 2, ProbEstClassifierNc.clean := True\<rparr>"
       and ?w2.0 = "\<lparr>store = [FArr [Fin 1], IArr [0], FMat \<lparr>ncols = 2, rows = [[Fin (1 / 5), Fin (4 / 5)]]\<rparr>, FMat \<lparr>ncols = 2, rows = [[NInf, Fin (4 / 5)]]\<rparr>, FArr [Fin (4 / 5)]], inferences = [FArr [Fin 1]]\<rparr>"
       and ?c2.0 = "(ProbEstClassifierNc_init demo_class margin_call None)\<lparr>ProbEstClassifierNc.last_x := Some 0, ProbEstClassifierNc.last_prediction := Some 2, ProbEstClassifierNc.clean := True\<rparr>"
       and v = "\<lparr>store = [FArr [Fin 1], IArr [0]], inferences = []\<rparr>"
       and g = "RegressorNc_init demo_class absolute_error_call absolute_error_inverse_call None"
       and z = 0 and t = 0 and zr = 3 and zs = 4 and k = absolute_error_call
       and ?v1.0 = "\<lparr>store = [FArr [Fin 1], IArr [0], FArr [Fin 0], FArr [Fin 0]], inferences = [FArr [Fin 1]]\<rparr>"
       and ?g1.0 = "(RegressorNc_init demo_class absolute_error_call absolute_error_inverse_call None)\<lparr>RegressorNc.last_x := Some 0, RegressorNc.last_prediction := Some 2, RegressorNc.clean := True\<rparr>"
       and ?v2.0 = "\<lparr>store = [FArr [Fin 1], IArr [0], FArr [Fin 0], FArr [Fin 0], FArr [Fin 1]], inferences = [FArr [Fin 1]]\<rparr>"
       and ?g2.0 = "(RegressorNc_init demo_class absolute_error_call absolute_error_inverse_call None)\<lparr>RegressorNc.last_x := Some 0, RegressorNc.last_prediction := Some 2, RegressorNc.clean := True\<rparr>"]
    e1 e2 e3 e4 by blast
qed

end
